theory Spec2Isabelle
  imports Main "HOL-Library.Sublist"
begin

section \<open>A container launcher: registry client, layer assembly, isolated launch\<close>

text \<open>
  The program (\<^verbatim>\<open>app/main.go\<close>) pulls an image from a registry, unpacks its layers into
  a temporary directory, changes root into it and runs a command there. Everything the
  program does besides computing on strings is a call to the operating system, the network
  or a library; those calls are the fields of the record \<open>env\<close> below, and the part of the
  machine the program changes is the record \<open>world\<close>, passed through every function.
\<close>

subsection \<open>Errors and results\<close>

text \<open>
  A Go \<^verbatim>\<open>error\<close> matters to the program in one respect only: whether \<^verbatim>\<open>errors.As\<close> finds an
  \<^verbatim>\<open>*exec.ExitError\<close> in it. \<open>ExitError k\<close> is such an error with \<^verbatim>\<open>ExitCode() = k\<close>
  (\<open>-1\<close> for a child killed by a signal); \<open>Err m\<close> is any other error, with its message.
\<close>

datatype error = ExitError int | Err string

text \<open>
  A call returns a value, returns an error, or panics (an out-of-range slice, a nil
  dereference). A panic unwinds the stack and runs the deferred calls.
\<close>

datatype 'a res = Ok 'a | Fail error | Panic string

text \<open>How a run of \<^verbatim>\<open>main\<close>'s body ends: it returns, it calls \<^verbatim>\<open>os.Exit\<close>, or it panics.\<close>

datatype flow = Returned | OsExit int | Panicking string

text \<open>What the parent of the process observes.\<close>

datatype outcome = Exited int | Panicked string

subsection \<open>The data of the program\<close>

record TokenResponse =
  Token :: string
  AuthToken :: string
  ExpiresIn :: int
  IssuedAt :: string

record Descriptor =
  MediaType :: string
  Size :: int
  Digest :: string

record ManifestResponse =
  SchemaVersion :: int
  ManifestMediaType :: string
  Config :: Descriptor
  Layers :: "Descriptor list"

text \<open>An HTTP response: \<^verbatim>\<open>resp.StatusCode\<close>, \<^verbatim>\<open>resp.Status\<close> and the bytes of \<^verbatim>\<open>resp.Body\<close>.\<close>

record response =
  StatusCode :: nat
  Status :: string
  Body :: string

text \<open>
  The result of \<^verbatim>\<open>cmd.Run()\<close>: the child could not be started, it ran and exited with a
  status, or it was killed by a signal.
\<close>

datatype run_result = StartFailed string | ExitStatus nat | Signaled

fun run_error :: "run_result \<Rightarrow> error option" where
  "run_error (StartFailed m) = Some (Err m)"
| "run_error (ExitStatus k) = (if k = 0 then None else Some (ExitError (int k)))"
| "run_error Signaled = Some (ExitError (- 1))"

subsection \<open>Image references\<close>

text \<open>\<^verbatim>\<open>strings.Split(s, ":")\<close> for a one-character separator: the pieces between its occurrences.\<close>

fun Split :: "string \<Rightarrow> char \<Rightarrow> string list" where
  "Split [] sep = [[]]"
| "Split (c # cs) sep =
     (if c = sep then [] # Split cs sep
      else (case Split cs sep of [] \<Rightarrow> [[c]] | p # ps \<Rightarrow> (c # p) # ps))"

text \<open>
  \<^verbatim>\<open>parseImage\<close> indexes \<^verbatim>\<open>parts[0]\<close> and, when there is more than one part, \<^verbatim>\<open>parts[1]\<close>;
  \<open>Split\<close> never returns the empty list (lemma \<open>Split_not_Nil\<close>), so both reads are in range.
\<close>

definition parseImage :: "string \<Rightarrow> string \<times> string" where
  "parseImage arg =
     (let parts = Split arg (CHR '':'')
      in if length parts = 1 then (parts ! 0, ''latest'') else (parts ! 0, parts ! 1))"

subsection \<open>The environment and the world\<close>

text \<open>
  Every call that leaves the program is a field of \<open>env\<close>, named after the Go function:
  \<^item> \<open>os_MkdirTemp\<close>: the fresh directory's path, or a failure message;
  \<^item> \<open>http_NewRequest\<close>: the failure message of building a GET request for a URL, if any;
  \<^item> \<open>httpClient_Do\<close>: for a URL and request headers, a transport failure or the response;
  \<^item> \<open>json_Decode_token\<close>, \<open>json_Decode_manifest\<close>: \<^verbatim>\<open>json.NewDecoder(body).Decode(&v)\<close> at
    the two types the program decodes into; the manifest is decoded into a pointer, which
    stays nil (\<open>None\<close>) for the JSON text \<^verbatim>\<open>null\<close>;
  \<^item> \<open>os_Create\<close>: the failure message of creating a file, if any;
  \<^item> \<open>io_Copy\<close>: for a file name and the bytes to copy, \<open>None\<close> when the copy completes and
    \<open>Some (n, m)\<close> when it fails with message \<open>m\<close> after \<open>n\<close> bytes;
  \<^item> \<open>tar_xzf\<close>: for the bytes of an archive (\<open>None\<close> for a missing file), the files tar
    writes, as paths below the destination with their contents in the order written, and
    how the tar process ended;
  \<^item> \<open>syscall_Chroot\<close>: the failure message of changing root to a path, if any;
  \<^item> \<open>cmd_Run\<close>: how the user's command, run with its arguments, ended.
\<close>

record env =
  os_MkdirTemp :: "string + string"
  http_NewRequest :: "string \<Rightarrow> string option"
  httpClient_Do :: "string \<Rightarrow> (string \<times> string) list \<Rightarrow> string + response"
  json_Decode_token :: "string \<Rightarrow> string + TokenResponse"
  json_Decode_manifest :: "string \<Rightarrow> string + ManifestResponse option"
  os_Create :: "string \<Rightarrow> string option"
  io_Copy :: "string \<Rightarrow> string \<Rightarrow> (nat \<times> string) option"
  tar_xzf :: "string option \<Rightarrow> (string \<times> string) list \<times> run_result"
  syscall_Chroot :: "string \<Rightarrow> string option"
  cmd_Run :: "string \<Rightarrow> string list \<Rightarrow> run_result"

text \<open>The external calls a run makes, in order.\<close>

datatype event =
  HttpGet string
  | RunTar string string
  | Chroot string
  | RunCommand string "string list"

text \<open>
  The world: the regular files and the temporary directories that exist, by path as seen
  from the root the process started in (a relative path is relative to the working
  directory, which a change of root does not move); the root the process is confined to
  (empty at the start); what the process itself has written to its standard output and
  standard error (what its children write there is not recorded); and the external calls
  made so far.
\<close>

record world =
  files :: "string \<rightharpoonup> string"
  dirs :: "string set"
  root :: string
  stdout :: "string list"
  stderr :: "string list"
  trace :: "event list"

definition hostPath :: "world \<Rightarrow> string \<Rightarrow> string" where
  "hostPath s p = (case p of c # _ \<Rightarrow> (if c = CHR ''/'' then root s @ p else p) | [] \<Rightarrow> p)"

definition log_event :: "event \<Rightarrow> world \<Rightarrow> world" where
  "log_event e s = s\<lparr>trace := trace s @ [e]\<rparr>"

definition below :: "string \<Rightarrow> string \<Rightarrow> bool" where
  "below h q = (q = h \<or> prefix (h @ ''/'') q)"

text \<open>\<^verbatim>\<open>os.MkdirTemp("", "my-docker")\<close>: a new, empty directory.\<close>

definition MkdirTemp :: "env \<Rightarrow> world \<Rightarrow> string res \<times> world" where
  "MkdirTemp env s =
     (case os_MkdirTemp env of
        Inl m \<Rightarrow> (Fail (Err m), s)
      | Inr dir \<Rightarrow>
          (Ok dir,
           s\<lparr>dirs := insert (hostPath s dir) (dirs s),
             files := (\<lambda>q. if below (hostPath s dir) q then None else files s q)\<rparr>))"

text \<open>\<^verbatim>\<open>os.RemoveAll(path)\<close>: the path and everything below it goes; a missing path is no error.\<close>

definition RemoveAll :: "string \<Rightarrow> world \<Rightarrow> world" where
  "RemoveAll p s =
     s\<lparr>dirs := Set.filter (\<lambda>d. \<not> below (hostPath s p) d) (dirs s),
       files := (\<lambda>q. if below (hostPath s p) q then None else files s q)\<rparr>"

subsection \<open>The registry client\<close>

definition getTokenURL :: "string \<Rightarrow> string" where
  "getTokenURL img =
     ''https://auth.docker.io/token?service=registry.docker.io&scope=repository:'' @ img @ '':pull''"

definition getManifestURL :: "string \<Rightarrow> string \<Rightarrow> string" where
  "getManifestURL img tag =
     ''https://registry.hub.docker.com/v2/library/'' @ img @ ''/manifests/'' @ tag"

definition getLayerURL :: "string \<Rightarrow> string \<Rightarrow> string" where
  "getLayerURL img digest =
     ''https://registry.hub.docker.com/v2/library/'' @ img @ ''/blobs/'' @ digest"

definition contentTypeHeader :: string where
  "contentTypeHeader = ''application/vnd.docker.distribution.manifest.v2+json''"

definition bearer :: "string \<Rightarrow> string \<times> string" where
  "bearer token = (''Authorization'', ''Bearer '' @ token)"

text \<open>\<^verbatim>\<open>httpClient.Get(url)\<close> builds the request and sends it; either step may fail.\<close>

definition getToken :: "env \<Rightarrow> string \<Rightarrow> world \<Rightarrow> string res \<times> world" where
  "getToken env img s =
     (let url = getTokenURL img in
      case http_NewRequest env url of
        Some m \<Rightarrow> (Fail (Err m), s)
      | None \<Rightarrow>
          (let s1 = log_event (HttpGet url) s in
           case httpClient_Do env url [] of
             Inl m \<Rightarrow> (Fail (Err m), s1)
           | Inr resp \<Rightarrow>
               if StatusCode resp \<noteq> 200 then (Fail (Err ''Error getting token''), s1)
               else (case json_Decode_token env (Body resp) of
                       Inl m \<Rightarrow> (Fail (Err m), s1)
                     | Inr token \<Rightarrow> (Ok (Token token), s1))))"

definition getManifest ::
  "env \<Rightarrow> string \<Rightarrow> string \<Rightarrow> string \<Rightarrow> world \<Rightarrow> ManifestResponse option res \<times> world" where
  "getManifest env img token tag s =
     (let url = getManifestURL img tag in
      case http_NewRequest env url of
        Some m \<Rightarrow> (Fail (Err m), s)
      | None \<Rightarrow>
          (let s1 = log_event (HttpGet url) s in
           case httpClient_Do env url [bearer token, (''Accept'', contentTypeHeader)] of
             Inl m \<Rightarrow> (Fail (Err m), s1)
           | Inr resp \<Rightarrow>
               if StatusCode resp \<noteq> 200
               then (Fail (Err (''Error getting manifest. Status: '' @ Status resp
                                @ ''. Response: '' @ Body resp)), s1)
               else (case json_Decode_manifest env (Body resp) of
                       Inl m \<Rightarrow> (Fail (Err m), s1)
                     | Inr manifest \<Rightarrow> (Ok manifest, s1))))"

text \<open>
  \<^verbatim>\<open>pullLayers\<close> of \<^verbatim>\<open>app/main.go\<close>. \<^verbatim>\<open>digest[7:]\<close> panics when the digest has fewer than 7
  bytes. \<^verbatim>\<open>os.Create\<close> leaves an empty file, which \<^verbatim>\<open>io.Copy\<close> then fills.
\<close>

definition layerFileName :: "string \<Rightarrow> string" where
  "layerFileName digest = drop 7 digest @ ''.tar.gz''"

definition pullLayers :: "env \<Rightarrow> string \<Rightarrow> string \<Rightarrow> string \<Rightarrow> world \<Rightarrow> string res \<times> world" where
  "pullLayers env img token digest s =
     (let url = getLayerURL img digest in
      case http_NewRequest env url of
        Some m \<Rightarrow> (Fail (Err m), s)
      | None \<Rightarrow>
          (let s1 = log_event (HttpGet url) s in
           case httpClient_Do env url [bearer token] of
             Inl m \<Rightarrow> (Fail (Err m), s1)
           | Inr resp \<Rightarrow>
               if StatusCode resp \<noteq> 200 then (Fail (Err ''Error getting layer''), s1)
               else if length digest < 7 then (Panic ''slice bounds out of range'', s1)
               else
                 (let name = layerFileName digest in
                  case os_Create env name of
                    Some m \<Rightarrow> (Fail (Err m), s1)
                  | None \<Rightarrow>
                      (case io_Copy env name (Body resp) of
                         Some (n, m) \<Rightarrow>
                           (Fail (Err m),
                            s1\<lparr>files := (files s1)(hostPath s1 name \<mapsto> take n (Body resp))\<rparr>)
                       | None \<Rightarrow>
                           (Ok name,
                            s1\<lparr>files := (files s1)(hostPath s1 name \<mapsto> Body resp)\<rparr>)))))"

text \<open>
  The later revision of the same file (\<^verbatim>\<open>unnamed/part_001\<close>) splits \<^verbatim>\<open>pullLayers\<close> into
  \<^verbatim>\<open>downloadLayer\<close> and \<^verbatim>\<open>saveLayerToFile\<close> and wraps the messages; \<open>pullLayers_split\<close> is its
  \<^verbatim>\<open>pullLayers\<close>.
\<close>

definition downloadLayer ::
  "env \<Rightarrow> string \<Rightarrow> string \<Rightarrow> string \<Rightarrow> world \<Rightarrow> response res \<times> world" where
  "downloadLayer env img token digest s =
     (let url = getLayerURL img digest in
      case http_NewRequest env url of
        Some m \<Rightarrow> (Fail (Err (''error creatign request: '' @ m)), s)
      | None \<Rightarrow>
          (let s1 = log_event (HttpGet url) s in
           case httpClient_Do env url [bearer token] of
             Inl m \<Rightarrow> (Fail (Err m), s1)
           | Inr resp \<Rightarrow> (Ok resp, s1)))"

definition saveLayerToFile :: "env \<Rightarrow> string \<Rightarrow> string \<Rightarrow> world \<Rightarrow> string res \<times> world" where
  "saveLayerToFile env body digest s =
     (if length digest < 7 then (Panic ''slice bounds out of range'', s)
      else
        (let filename = layerFileName digest in
         case os_Create env filename of
           Some m \<Rightarrow> (Fail (Err (''error creating file '' @ filename @ '': '' @ m)), s)
         | None \<Rightarrow>
             (case io_Copy env filename body of
                Some (n, m) \<Rightarrow>
                  (Fail (Err (''error writing file '' @ filename @ '': '' @ m)),
                   s\<lparr>files := (files s)(hostPath s filename \<mapsto> take n body)\<rparr>)
              | None \<Rightarrow>
                  (Ok filename, s\<lparr>files := (files s)(hostPath s filename \<mapsto> body)\<rparr>))))"

definition pullLayers_split ::
  "env \<Rightarrow> string \<Rightarrow> string \<Rightarrow> string \<Rightarrow> world \<Rightarrow> string res \<times> world" where
  "pullLayers_split env img token digest s =
     (case downloadLayer env img token digest s of
        (Fail e, s1) \<Rightarrow> (Fail e, s1)
      | (Panic m, s1) \<Rightarrow> (Panic m, s1)
      | (Ok resp, s1) \<Rightarrow>
          if StatusCode resp \<noteq> 200
          then (Fail (Err (''error downloading layer (status: '' @ Status resp @ '')'')), s1)
          else saveLayerToFile env (Body resp) digest s1)"

subsection \<open>Extraction, isolation, error exit\<close>

text \<open>
  \<^verbatim>\<open>extractTar\<close> runs \<^verbatim>\<open>tar -xzf src -C dest\<close> and returns the error of \<^verbatim>\<open>cmd.Run()\<close> as it is:
  an \<^verbatim>\<open>*exec.ExitError\<close> when tar ran and failed.
\<close>

definition write_entries :: "string \<Rightarrow> (string \<times> string) list \<Rightarrow> (string \<rightharpoonup> string) \<Rightarrow> (string \<rightharpoonup> string)" where
  "write_entries dest entries f = fold (\<lambda>(p, c) g. g(dest @ ''/'' @ p \<mapsto> c)) entries f"

definition extractTar :: "env \<Rightarrow> string \<Rightarrow> string \<Rightarrow> world \<Rightarrow> unit res \<times> world" where
  "extractTar env src dest s =
     (let s1 = log_event (RunTar src dest) s;
          (entries, r) = tar_xzf env (files s1 (hostPath s1 src));
          s2 = s1\<lparr>files := write_entries (hostPath s1 dest) entries (files s1)\<rparr>
      in case run_error r of
           Some e \<Rightarrow> (Fail e, s2)
         | None \<Rightarrow> (Ok (), s2))"

definition createFileSystem :: "env \<Rightarrow> string \<Rightarrow> world \<Rightarrow> unit res \<times> world" where
  "createFileSystem env dir s =
     (let s1 = log_event (Chroot dir) s in
      case syscall_Chroot env dir of
        Some m \<Rightarrow> (Fail (Err m), s1)
      | None \<Rightarrow> (Ok (), s1\<lparr>root := hostPath s1 dir\<rparr>))"

text \<open>
  \<^verbatim>\<open>handleError\<close> never returns: it ends the process through \<^verbatim>\<open>os.Exit\<close>, which runs no
  deferred call. \<^verbatim>\<open>fmt.Printf\<close> writes to the standard output.
\<close>

fun handleError :: "error \<Rightarrow> world \<Rightarrow> flow \<times> world" where
  "handleError (ExitError k) s = (OsExit k, s)"
| "handleError (Err m) s = (OsExit 1, s\<lparr>stdout := stdout s @ [''Error '' @ m @ [CHR 0x0A]]\<rparr>)"

subsection \<open>The pipeline\<close>

text \<open>The first loop of \<^verbatim>\<open>main\<close>: every layer is downloaded, the file names are collected.\<close>

fun pull_loop ::
  "env \<Rightarrow> string \<Rightarrow> string \<Rightarrow> Descriptor list \<Rightarrow> string list \<Rightarrow> world
   \<Rightarrow> (flow + string list) \<times> world" where
  "pull_loop env img token [] layerNames s = (Inr layerNames, s)"
| "pull_loop env img token (m # ms) layerNames s =
     (case pullLayers env img token (Digest m) s of
        (Fail e, s1) \<Rightarrow> (case handleError e s1 of (fl, s2) \<Rightarrow> (Inl fl, s2))
      | (Panic msg, s1) \<Rightarrow> (Inl (Panicking msg), s1)
      | (Ok layer, s1) \<Rightarrow> pull_loop env img token ms (layerNames @ [layer]) s1)"

text \<open>The second loop: every downloaded file is unpacked into the same directory.\<close>

fun extract_loop :: "env \<Rightarrow> string list \<Rightarrow> string \<Rightarrow> world \<Rightarrow> (flow + unit) \<times> world" where
  "extract_loop env [] dir s = (Inr (), s)"
| "extract_loop env (layer # layers) dir s =
     (case extractTar env layer dir s of
        (Fail e, s1) \<Rightarrow> (case handleError e s1 of (fl, s2) \<Rightarrow> (Inl fl, s2))
      | (Panic msg, s1) \<Rightarrow> (Inl (Panicking msg), s1)
      | (Ok u, s1) \<Rightarrow> extract_loop env layers dir s1)"

text \<open>
  \<^verbatim>\<open>main\<close> from the line after \<^verbatim>\<open>defer os.RemoveAll(dir)\<close> to its end, in two parts:
  \<open>assemble\<close> is everything up to and including the change of root, \<open>launch\<close> is the run of
  the user's command. A nil manifest panics at \<^verbatim>\<open>manifest.Layers\<close>.
\<close>

definition assemble :: "env \<Rightarrow> string \<Rightarrow> string \<Rightarrow> world \<Rightarrow> (flow + unit) \<times> world" where
  "assemble env imageName dir s =
     (let (img, tag) = parseImage imageName in
      case getToken env (''library/'' @ img) s of
        (Fail e, s1) \<Rightarrow> (case handleError e s1 of (fl, s') \<Rightarrow> (Inl fl, s'))
      | (Panic msg, s1) \<Rightarrow> (Inl (Panicking msg), s1)
      | (Ok token, s1) \<Rightarrow>
     (case getManifest env img token tag s1 of
        (Fail e, s2) \<Rightarrow> (case handleError e s2 of (fl, s') \<Rightarrow> (Inl fl, s'))
      | (Panic msg, s2) \<Rightarrow> (Inl (Panicking msg), s2)
      | (Ok None, s2) \<Rightarrow> (Inl (Panicking ''nil pointer dereference''), s2)
      | (Ok (Some manifest), s2) \<Rightarrow>
     (case pull_loop env img token (Layers manifest) [] s2 of
        (Inl fl, s3) \<Rightarrow> (Inl fl, s3)
      | (Inr layerNames, s3) \<Rightarrow>
     (case extract_loop env layerNames dir s3 of
        (Inl fl, s4) \<Rightarrow> (Inl fl, s4)
      | (Inr u, s4) \<Rightarrow>
     (case createFileSystem env dir s4 of
        (Fail e, s5) \<Rightarrow> (case handleError e s5 of (fl, s') \<Rightarrow> (Inl fl, s'))
      | (Panic msg, s5) \<Rightarrow> (Inl (Panicking msg), s5)
      | (Ok u, s5) \<Rightarrow> (Inr (), s5))))))"

definition launch :: "env \<Rightarrow> string \<Rightarrow> string list \<Rightarrow> world \<Rightarrow> flow \<times> world" where
  "launch env command args s =
     (let s1 = log_event (RunCommand command args) s in
      case run_error (cmd_Run env command args) of
        Some e \<Rightarrow> handleError e s1
      | None \<Rightarrow> (Returned, s1))"

definition main_body ::
  "env \<Rightarrow> string \<Rightarrow> string \<Rightarrow> string list \<Rightarrow> string \<Rightarrow> world \<Rightarrow> flow \<times> world" where
  "main_body env imageName command args dir s =
     (case assemble env imageName dir s of
        (Inl fl, s1) \<Rightarrow> (fl, s1)
      | (Inr u, s1) \<Rightarrow> launch env command args s1)"

text \<open>
  \<^verbatim>\<open>main\<close>. \<^verbatim>\<open>os.Args[2]\<close>, \<^verbatim>\<open>os.Args[3]\<close> and \<^verbatim>\<open>os.Args[4:]\<close> panic on fewer than four
  arguments. The deferred \<^verbatim>\<open>os.RemoveAll(dir)\<close> runs when \<^verbatim>\<open>main\<close> returns or panics, in the
  root the process is confined to by then, and does not run after \<^verbatim>\<open>os.Exit\<close>. A panic
  that reaches the top is printed on the standard error by the runtime.
\<close>

fun exit_main :: "(world \<Rightarrow> world) \<Rightarrow> flow \<times> world \<Rightarrow> outcome \<times> world" where
  "exit_main deferred (Returned, s) = (Exited 0, deferred s)"
| "exit_main deferred (OsExit k, s) = (Exited k, s)"
| "exit_main deferred (Panicking msg, s) =
     (Panicked msg, (deferred s)\<lparr>stderr := stderr s @ [''panic: '' @ msg]\<rparr>)"

definition main :: "env \<Rightarrow> string list \<Rightarrow> world \<Rightarrow> outcome \<times> world" where
  "main env Args s =
     (if length Args < 4 then exit_main id (Panicking ''index out of range'', s)
      else
        (let imageName = Args ! 2; command = Args ! 3; args = drop 4 Args in
         case MkdirTemp env s of
           (Fail e, s1) \<Rightarrow> exit_main id (handleError e s1)
         | (Panic msg, s1) \<Rightarrow> exit_main id (Panicking msg, s1)
         | (Ok dir, s1) \<Rightarrow>
             exit_main (RemoveAll dir) (main_body env imageName command args dir s1)))"

text \<open>The world before the run: no file, no directory, the host's root, nothing written.\<close>

definition world0 :: world where
  "world0 = \<lparr>files = Map.empty, dirs = {}, root = [], stdout = [], stderr = [], trace = []\<rparr>"

subsection \<open>How a run reports a failure\<close>

text \<open>The line \<^verbatim>\<open>handleError\<close> prints for an error with message \<open>m\<close>.\<close>

definition error_line :: "string \<Rightarrow> string" where
  "error_line m = ''Error '' @ m @ [CHR 0x0A]"

text \<open>
  The run \<open>r\<close>, started in the world \<open>s\<close>, exits with code 1 and has added the error line
  for \<open>m\<close> to the standard output and nothing to the standard error.
\<close>

definition exits_reporting :: "outcome \<times> world \<Rightarrow> world \<Rightarrow> string \<Rightarrow> bool" where
  "exits_reporting r s m =
     (fst r = Exited 1 \<and> stdout (snd r) = stdout s @ [error_line m] \<and> stderr (snd r) = stderr s)"

subsection \<open>What a layer holds\<close>

text \<open>
  The bytes the registry serves for a layer's digest, and the files tar unpacks from them:
  the content of the layer.
\<close>

definition blob :: "env \<Rightarrow> string \<Rightarrow> string \<Rightarrow> string \<Rightarrow> string option" where
  "blob env img token digest =
     (case httpClient_Do env (getLayerURL img digest) [bearer token] of
        Inl m \<Rightarrow> None
      | Inr resp \<Rightarrow> Some (Body resp))"


subsection \<open>A small registry to run the pipeline on\<close>

text \<open>
  One image, \<open>alpine:latest\<close>, of two layers that both write \<open>bin/foo\<close>; every other URL
  answers 404. The decoders know the two JSON bodies this registry serves.
\<close>

definition quoted :: "string \<Rightarrow> string" where
  "quoted t = CHR 0x22 # t @ [CHR 0x22]"

definition ok_response :: "string \<Rightarrow> response" where
  "ok_response b = \<lparr>StatusCode = 200, Status = ''200 OK'', Body = b\<rparr>"

definition not_found :: response where
  "not_found = \<lparr>StatusCode = 404, Status = ''404 Not Found'', Body = ''{}''\<rparr>"

definition layer_of :: "string \<Rightarrow> Descriptor" where
  "layer_of d =
     \<lparr>MediaType = ''application/vnd.docker.image.rootfs.diff.tar.gzip'', Size = 1, Digest = d\<rparr>"

definition token_body :: string where
  "token_body = ''{'' @ quoted ''token'' @ '':'' @ quoted ''t0'' @ ''}''"

definition token_t0 :: TokenResponse where
  "token_t0 = \<lparr>Token = ''t0'', AuthToken = [], ExpiresIn = 0, IssuedAt = []\<rparr>"

definition manifest_of :: "Descriptor list \<Rightarrow> ManifestResponse" where
  "manifest_of ls =
     \<lparr>SchemaVersion = 2, ManifestMediaType = contentTypeHeader,
      Config = \<lparr>MediaType = ''application/vnd.docker.container.image.v1+json'', Size = 1,
                Digest = ''sha256:cc''\<rparr>,
      Layers = ls\<rparr>"

definition demo_env :: env where
  "demo_env =
     \<lparr>os_MkdirTemp = Inr ''/tmp/my-docker1'',
      http_NewRequest = (\<lambda>url. None),
      httpClient_Do = (\<lambda>url headers.
         if url = getTokenURL ''library/alpine'' then Inr (ok_response token_body)
         else if url = getManifestURL ''alpine'' ''latest'' then Inr (ok_response ''manifest'')
         else if url = getLayerURL ''alpine'' ''sha256:aa'' then Inr (ok_response ''blob A'')
         else if url = getLayerURL ''alpine'' ''sha256:bb'' then Inr (ok_response ''blob B'')
         else Inr not_found),
      json_Decode_token = (\<lambda>b. if b = token_body then Inr token_t0 else Inl ''invalid character''),
      json_Decode_manifest = (\<lambda>b.
         if b = ''manifest''
         then Inr (Some (manifest_of [layer_of ''sha256:aa'', layer_of ''sha256:bb'']))
         else Inl ''invalid character''),
      os_Create = (\<lambda>name. None),
      io_Copy = (\<lambda>name b. None),
      tar_xzf = (\<lambda>archive.
         if archive = Some ''blob A'' then ([(''bin/foo'', ''A''), (''etc/a'', ''a'')], ExitStatus 0)
         else if archive = Some ''blob B'' then ([(''bin/foo'', ''B'')], ExitStatus 0)
         else ([], ExitStatus 2)),
      syscall_Chroot = (\<lambda>dir. None),
      cmd_Run = (\<lambda>command args. if command = ''/bin/false'' then ExitStatus 3 else ExitStatus 0)\<rparr>"

text \<open>
  The decoder of \<^verbatim>\<open>encoding/json\<close> accepts the object \<^verbatim>\<open>{}\<close> at every struct type and leaves
  each field at its zero value. \<open>lenient_env\<close> is a registry that answers every request
  with 200 and that body.
\<close>

definition zero_descriptor :: Descriptor where
  "zero_descriptor = \<lparr>MediaType = [], Size = 0, Digest = []\<rparr>"

definition zero_manifest :: ManifestResponse where
  "zero_manifest =
     \<lparr>SchemaVersion = 0, ManifestMediaType = [], Config = zero_descriptor, Layers = []\<rparr>"

definition zero_token :: TokenResponse where
  "zero_token = \<lparr>Token = [], AuthToken = [], ExpiresIn = 0, IssuedAt = []\<rparr>"

definition lenient_env :: env where
  "lenient_env =
     demo_env
       \<lparr>httpClient_Do := (\<lambda>url headers. Inr (ok_response ''{}'')),
        json_Decode_token := (\<lambda>b. if b = ''{}'' then Inr zero_token else Inl ''invalid character''),
        json_Decode_manifest :=
          (\<lambda>b. if b = ''{}'' then Inr (Some zero_manifest) else Inl ''invalid character'')\<rparr>"

text \<open>A registry whose token endpoint answers 401.\<close>

definition unauthorized :: response where
  "unauthorized = \<lparr>StatusCode = 401, Status = ''401 Unauthorized'', Body = ''{}''\<rparr>"

definition denied_env :: env where
  "denied_env = demo_env\<lparr>httpClient_Do := (\<lambda>url headers. Inr unauthorized)\<rparr>"

text \<open>A registry that serves a blob for every digest, also one named by \<open>md5\<close>.\<close>

definition any_blob_env :: env where
  "any_blob_env = demo_env\<lparr>httpClient_Do := (\<lambda>url headers. Inr (ok_response ''blob''))\<rparr>"

text \<open>A command that exits with status 3, and a machine where no command can be started.\<close>

definition false_args :: "string list" where
  "false_args = [''mydocker'', ''run'', ''alpine'', ''/bin/false'']"

definition no_binary_env :: env where
  "no_binary_env = demo_env\<lparr>cmd_Run := (\<lambda>command args. StartFailed ''exec: not found'')\<rparr>"

text \<open>The demo registry on a machine where tar exits with status 2 on every archive.\<close>

definition corrupt_env :: env where
  "corrupt_env = demo_env\<lparr>tar_xzf := (\<lambda>archive. ([], ExitStatus 2))\<rparr>"

text \<open>
  Machines and registries on which one stage fails: no temporary directory can be made; the
  second layer is missing from the registry; tar cannot be started; the change of root is
  refused. And a reference to a tag the registry does not have.
\<close>

definition no_tmp_env :: env where
  "no_tmp_env = demo_env\<lparr>os_MkdirTemp := Inl ''no space left on device''\<rparr>"

definition missing_layer_env :: env where
  "missing_layer_env =
     demo_env\<lparr>httpClient_Do := (\<lambda>url headers.
        if url = getLayerURL ''alpine'' ''sha256:bb'' then Inr not_found
        else httpClient_Do demo_env url headers)\<rparr>"

definition no_tar_env :: env where
  "no_tar_env = demo_env\<lparr>tar_xzf := (\<lambda>archive. ([], StartFailed ''exec: tar: not found''))\<rparr>"

definition no_chroot_env :: env where
  "no_chroot_env = demo_env\<lparr>syscall_Chroot := (\<lambda>dir. Some ''operation not permitted'')\<rparr>"

definition tag9_args :: "string list" where
  "tag9_args = [''mydocker'', ''run'', ''alpine:9'', ''/bin/echo'', ''hello'']"




text \<open>A command that the demo image holds.\<close>

definition foo_args :: "string list" where
  "foo_args = [''mydocker'', ''run'', ''alpine'', ''/bin/foo'']"

definition demo_args :: "string list" where
  "demo_args = [''mydocker'', ''run'', ''alpine'', ''/bin/echo'', ''hello'']"

lemmas model_defs =
  main_def MkdirTemp_def RemoveAll_def main_body_def assemble_def launch_def parseImage_def getToken_def
  getManifest_def pullLayers_def extractTar_def createFileSystem_def Let_def hostPath_def
  log_event_def getTokenURL_def getManifestURL_def getLayerURL_def layerFileName_def
  bearer_def write_entries_def below_def world0_def

lemmas demo_defs =
  demo_env_def demo_args_def ok_response_def not_found_def token_body_def token_t0_def
  quoted_def manifest_of_def layer_of_def zero_descriptor_def zero_manifest_def
  zero_token_def lenient_env_def unauthorized_def denied_env_def any_blob_env_def
  false_args_def no_binary_env_def corrupt_env_def

lemmas failing_defs =
  no_tmp_env_def missing_layer_env_def no_tar_env_def no_chroot_env_def tag9_args_def

section \<open>Properties\<close>

subsection \<open>Basic facts about the world\<close>

lemma log_event_fields [simp]:
  "files (log_event e s) = files s"
  "dirs (log_event e s) = dirs s"
  "root (log_event e s) = root s"
  "stdout (log_event e s) = stdout s"
  "stderr (log_event e s) = stderr s"
  "trace (log_event e s) = trace s @ [e]"
  by (simp_all add: log_event_def)

lemma hostPath_root: "root s' = root s \<Longrightarrow> hostPath s' p = hostPath s p"
  by (simp add: hostPath_def split: list.splits)

lemma hostPath_log_event [simp]: "hostPath (log_event e s) p = hostPath s p"
  by (rule hostPath_root) simp

lemma hostPath_files_update [simp]: "hostPath (s\<lparr>files := f\<rparr>) p = hostPath s p"
  by (rule hostPath_root) simp

lemma hostPath_stdout_update [simp]: "hostPath (s\<lparr>stdout := f\<rparr>) p = hostPath s p"
  by (rule hostPath_root) simp

subsection \<open>What each stage leaves alone\<close>

lemma RemoveAll_fields [simp]:
  "root (RemoveAll p s) = root s"
  "stdout (RemoveAll p s) = stdout s"
  "stderr (RemoveAll p s) = stderr s"
  "trace (RemoveAll p s) = trace s"
  by (simp_all add: RemoveAll_def)

lemma handleError_fields [simp]:
  "files (snd (handleError e s)) = files s"
  "dirs (snd (handleError e s)) = dirs s"
  "root (snd (handleError e s)) = root s"
  "stderr (snd (handleError e s)) = stderr s"
  "trace (snd (handleError e s)) = trace s"
  by (cases e; simp)+

lemma getToken_frame:
  assumes "getToken env img s = (r, s')"
  shows "files s' = files s \<and> dirs s' = dirs s \<and> root s' = root s
       \<and> stdout s' = stdout s \<and> stderr s' = stderr s"
  using assms by (auto simp add: getToken_def Let_def split: option.splits sum.splits if_splits)

lemma getToken_result: "fst (getToken env img s) \<noteq> Panic msg" "fst (getToken env img s) \<noteq> Fail (ExitError k)"
  by (simp_all add: getToken_def Let_def split: option.splits sum.splits)

lemma getManifest_frame:
  assumes "getManifest env img token tag s = (r, s')"
  shows "files s' = files s \<and> dirs s' = dirs s \<and> root s' = root s
       \<and> stdout s' = stdout s \<and> stderr s' = stderr s"
  using assms by (auto simp add: getManifest_def Let_def split: option.splits sum.splits if_splits)

lemma getManifest_result: "fst (getManifest env img token tag s) \<noteq> Panic msg"
  "fst (getManifest env img token tag s) \<noteq> Fail (ExitError k)"
  by (simp_all add: getManifest_def Let_def split: option.splits sum.splits)

lemma pullLayers_frame:
  assumes "pullLayers env img token digest s = (r, s')"
  shows "dirs s' = dirs s \<and> root s' = root s \<and> stdout s' = stdout s \<and> stderr s' = stderr s"
  using assms by (auto simp add: pullLayers_def Let_def split: option.splits sum.splits if_splits)

lemma pullLayers_result: "fst (pullLayers env img token digest s) \<noteq> Fail (ExitError k)"
  by (simp add: pullLayers_def Let_def split: option.splits sum.splits prod.splits)

lemma extractTar_frame:
  assumes "extractTar env src dest s = (r, s')"
  shows "dirs s' = dirs s \<and> root s' = root s \<and> stdout s' = stdout s \<and> stderr s' = stderr s"
  using assms by (auto simp add: extractTar_def Let_def split: option.splits prod.splits)

lemma extractTar_result: "fst (extractTar env src dest s) \<noteq> Panic msg"
  by (simp add: extractTar_def Let_def split: option.splits prod.splits)


lemma createFileSystem_result: "fst (createFileSystem env dir s) \<noteq> Panic msg"
  "fst (createFileSystem env dir s) \<noteq> Fail (ExitError k)"
  by (simp_all add: createFileSystem_def Let_def split: option.splits)

subsection \<open>Splitting\<close>

lemma Split_not_Nil: "Split s sep \<noteq> []"
  by (induction s) (auto split: list.splits)

lemma Split_length: "length (Split s sep) = Suc (count_list s sep)"
  by (induction s) (auto split: list.splits)

lemma Split_no_sep: "sep \<notin> set s \<Longrightarrow> Split s sep = [s]"
  by (induction s) auto

lemma Split_append_sep:
  "sep \<notin> set a \<Longrightarrow> Split (a @ sep # b) sep = a # Split b sep"
  by (induction a) (auto split: list.splits)

lemma hd_Split: "hd (Split s sep) = takeWhile (\<lambda>c. c \<noteq> sep) s"
  by (induction s) (auto split: list.splits simp: Split_not_Nil)

text \<open>
  C9. A reference \<open>name:tag\<close> parses to \<open>(name, tag)\<close>, a reference without a tag to
  \<open>(name, ''latest'')\<close>, and \<open>alpine\<close> to the tag \<open>latest\<close>. The name holds no colon; the
  tag is what follows the first colon up to the next one, which is the whole tag when the
  tag holds no colon.
\<close>

theorem parseImage_name_tag:
  assumes "CHR '':'' \<notin> set name"
  shows "parseImage name = (name, ''latest'')
       \<and> parseImage (name @ '':'' @ tag) = (name, takeWhile (\<lambda>c. c \<noteq> CHR '':'') tag)
       \<and> (CHR '':'' \<notin> set tag \<longrightarrow> parseImage (name @ '':'' @ tag) = (name, tag))
       \<and> parseImage ''alpine'' = (''alpine'', ''latest'')"
proof -
  have untagged: "parseImage name = (name, ''latest'')"
    using assms by (simp add: parseImage_def Split_no_sep)
  have sp: "Split (name @ '':'' @ tag) (CHR '':'') = name # Split tag (CHR '':'')"
    using assms by (simp add: Split_append_sep)
  have len: "length (Split tag (CHR '':'')) \<noteq> 0"
    by (simp add: Split_not_Nil)
  have "Split tag (CHR '':'') ! 0 = hd (Split tag (CHR '':''))"
    by (simp add: hd_conv_nth Split_not_Nil)
  then have tagged:
    "parseImage (name @ '':'' @ tag) = (name, takeWhile (\<lambda>c. c \<noteq> CHR '':'') tag)"
    using sp len by (simp add: parseImage_def Let_def hd_Split)
  have whole: "parseImage (name @ '':'' @ tag) = (name, tag)" if "CHR '':'' \<notin> set tag"
  proof -
    from that have "takeWhile (\<lambda>c. c \<noteq> CHR '':'') tag = tag"
      by (intro takeWhile_eq_all_conv [THEN iffD2]) auto
    with tagged show ?thesis by simp
  qed
  have alpine: "parseImage ''alpine'' = (''alpine'', ''latest'')"
    by (simp add: parseImage_def)
  from untagged tagged whole alpine show ?thesis by blast
qed

theorem parseImage_name_tag_witness:
  "CHR '':'' \<notin> set ''busybox'' \<and> CHR '':'' \<notin> set ''1.36''
   \<and> parseImage ''busybox'' = (''busybox'', ''latest'')
   \<and> parseImage ''busybox:1.36'' = (''busybox'', ''1.36'')"
  using parseImage_name_tag [of "''busybox''" "''1.36''"]
  by simp

subsection \<open>Layer file names\<close>

lemma layerFileName_strips:
  assumes "7 \<le> length (alg @ '':'' @ hex)"
  shows "(layerFileName (alg @ '':'' @ hex) = hex @ ''.tar.gz'') = (length alg = 6)"
proof
  assume "layerFileName (alg @ '':'' @ hex) = hex @ ''.tar.gz''"
  then have "drop 7 (alg @ '':'' @ hex) = hex"
    by (simp add: layerFileName_def)
  then have "length (drop 7 (alg @ '':'' @ hex)) = length hex"
    by simp
  with assms show "length alg = 6"
    by simp
next
  assume "length alg = 6"
  then show "layerFileName (alg @ '':'' @ hex) = hex @ ''.tar.gz''"
    by (simp add: layerFileName_def)
qed

lemma saveLayerToFile_panics_iff:
  "(\<exists>m. fst (saveLayerToFile env body digest s) = Panic m) = (length digest < 7)"
  by (auto simp add: saveLayerToFile_def Let_def split: option.splits)

lemma saveLayerToFile_Ok_name:
  "fst (saveLayerToFile env body digest s) = Ok name \<Longrightarrow>
   7 \<le> length digest \<and> name = layerFileName digest"
  by (auto simp add: saveLayerToFile_def Let_def split: option.splits if_splits)

lemma pullLayers_panics_iff:
  assumes "http_NewRequest env (getLayerURL img digest) = None"
    and "httpClient_Do env (getLayerURL img digest) [bearer token] = Inr resp"
    and "StatusCode resp = 200"
  shows "(\<exists>m. fst (pullLayers env img token digest s) = Panic m) = (length digest < 7)"
  using assms by (auto simp add: pullLayers_def Let_def split: option.splits)

text \<open>
  C10. Saving a layer returns (a file name or an error) exactly when the digest has at
  least 7 characters, and panics on the out-of-range slice otherwise: so does
  \<^verbatim>\<open>saveLayerToFile\<close>, and so does \<^verbatim>\<open>pullLayers\<close> of \<^verbatim>\<open>app/main.go\<close> once the registry has
  answered 200. For a digest \<open>alg:hex\<close> the file it names is \<open>hex.tar.gz\<close> exactly when the
  algorithm's name has 6 characters, that is when the prefix \<open>alg:\<close> has 7.
\<close>

theorem saveLayerToFile_total_iff_seven:
  "((\<exists>m. fst (saveLayerToFile env body digest s) = Panic m) = (length digest < 7))
   \<and> (http_NewRequest env (getLayerURL img digest) = None
        \<and> httpClient_Do env (getLayerURL img digest) [bearer token] = Inr resp
        \<and> StatusCode resp = 200
      \<longrightarrow> (\<exists>m. fst (pullLayers env img token digest s) = Panic m) = (length digest < 7))
   \<and> (fst (saveLayerToFile env body (alg @ '':'' @ hex) s) = Ok name
      \<longrightarrow> (name = hex @ ''.tar.gz'') = (length alg = 6))"
proof -
  have "(name = hex @ ''.tar.gz'') = (length alg = 6)"
    if "fst (saveLayerToFile env body (alg @ '':'' @ hex) s) = Ok name"
    using saveLayerToFile_Ok_name [OF that] layerFileName_strips [of alg hex] by simp
  then show ?thesis
    using saveLayerToFile_panics_iff [of env body digest s]
      pullLayers_panics_iff [of env img digest token resp s]
    by blast
qed

theorem saveLayerToFile_total_iff_seven_witness:
  "fst (saveLayerToFile demo_env ''blob'' ''sha1:'' world0) = Panic ''slice bounds out of range''
   \<and> fst (pullLayers demo_env ''alpine'' ''t0'' ''sha256:aa'' world0) = Ok ''aa.tar.gz''
   \<and> fst (saveLayerToFile demo_env ''blob'' ''md5:0123456789'' world0) = Ok ''3456789.tar.gz''
   \<and> ''3456789.tar.gz'' \<noteq> ''0123456789.tar.gz'' \<and> length ''md5'' \<noteq> 6"
proof -
  have save: "fst (saveLayerToFile demo_env ''blob'' (''md5'' @ '':'' @ ''0123456789'') world0)
      = Ok ''3456789.tar.gz''"
    by (simp add: saveLayerToFile_def model_defs demo_defs)
  have pull: "http_NewRequest demo_env (getLayerURL ''alpine'' ''sha256:aa'') = None
      \<and> httpClient_Do demo_env (getLayerURL ''alpine'' ''sha256:aa'') [bearer ''t0'']
          = Inr (ok_response ''blob A'')
      \<and> StatusCode (ok_response ''blob A'') = 200"
    by (simp add: model_defs demo_defs)
  have "fst (pullLayers demo_env ''alpine'' ''t0'' ''sha256:aa'' world0) = Ok ''aa.tar.gz''"
    by (simp add: model_defs demo_defs)
  moreover have "fst (saveLayerToFile demo_env ''blob'' ''sha1:'' world0)
      = Panic ''slice bounds out of range''"
    by (simp add: saveLayerToFile_def)
  ultimately show ?thesis
    using saveLayerToFile_total_iff_seven [of demo_env "''blob''" "''sha1:''" world0
        "''alpine''" "''t0''" "ok_response ''blob A''" "''md5''" "''0123456789''" "''3456789.tar.gz''"]
      save pull
    by simp
qed

subsection \<open>Downloading a layer\<close>

lemma pullLayers_non200:
  assumes "http_NewRequest env (getLayerURL img digest) = None"
    and "httpClient_Do env (getLayerURL img digest) [bearer token] = Inr resp"
    and "StatusCode resp \<noteq> 200"
  shows "pullLayers env img token digest s
         = (Fail (Err ''Error getting layer''), log_event (HttpGet (getLayerURL img digest)) s)"
  using assms by (simp add: pullLayers_def Let_def)

lemma pullLayers_Ok:
  assumes "pullLayers env img token digest s = (Ok name, s')"
  shows "\<exists>resp. http_NewRequest env (getLayerURL img digest) = None
          \<and> httpClient_Do env (getLayerURL img digest) [bearer token] = Inr resp
          \<and> StatusCode resp = 200 \<and> 7 \<le> length digest
          \<and> name = layerFileName digest
          \<and> s' = (log_event (HttpGet (getLayerURL img digest)) s)
                  \<lparr>files := (files s)(hostPath s name \<mapsto> Body resp)\<rparr>"
  using assms
  by (auto simp add: pullLayers_def Let_def split: option.splits sum.splits if_splits)

lemma pullLayers_succeeds:
  assumes "http_NewRequest env (getLayerURL img digest) = None"
    and "httpClient_Do env (getLayerURL img digest) [bearer token] = Inr resp"
    and "StatusCode resp = 200" and "7 \<le> length digest"
    and "os_Create env (layerFileName digest) = None"
    and "io_Copy env (layerFileName digest) (Body resp) = None"
  shows "pullLayers env img token digest s
         = (Ok (layerFileName digest),
            (log_event (HttpGet (getLayerURL img digest)) s)
              \<lparr>files := (files s)(hostPath s (layerFileName digest) \<mapsto> Body resp)\<rparr>)"
  using assms by (simp add: pullLayers_def Let_def)

lemma pullLayers_Ok_file:
  assumes "pullLayers env img token digest s = (Ok name, s')"
  shows "\<exists>resp. httpClient_Do env (getLayerURL img digest) [bearer token] = Inr resp
         \<and> StatusCode resp = 200
         \<and> name = drop 7 digest @ ''.tar.gz''
         \<and> files s' (hostPath s name) = Some (Body resp)"
proof -
  from pullLayers_Ok [OF assms] obtain resp where
    r: "httpClient_Do env (getLayerURL img digest) [bearer token] = Inr resp"
       "StatusCode resp = 200" "name = layerFileName digest"
       "s' = (log_event (HttpGet (getLayerURL img digest)) s)
                  \<lparr>files := (files s)(hostPath s name \<mapsto> Body resp)\<rparr>"
    by blast
  from r(4) have "files s' (hostPath s name) = Some (Body resp)"
    by simp
  with r(1,2,3) show ?thesis
    by (simp add: layerFileName_def)
qed

lemma pullLayers_Ok_six:
  assumes "length alg = 6" and "pullLayers env img token (alg @ '':'' @ hex) s = (Ok name, s')"
  shows "name = hex @ ''.tar.gz''"
proof -
  from pullLayers_Ok [OF assms(2)] have "name = layerFileName (alg @ '':'' @ hex)"
    by blast
  with assms(1) show ?thesis
    by (simp add: layerFileName_def)
qed

text \<open>
  C7, as the program has it. A download that succeeds has received a 200 response, and the
  whole body is in the file it names; the name is the digest without its first 7
  characters, followed by \<open>.tar.gz\<close>, so it depends on the digest alone. Every 200
  response for a digest of at least 7 characters gives such a file when the file can be
  created and written. For a digest \<open>alg:hex\<close> whose algorithm has 6 characters, as
  \<open>sha256\<close> has, the name is \<open>hex.tar.gz\<close>. A response other than 200 is an error.
\<close>

theorem pullLayers_names_file:
  "(pullLayers env img token digest s = (Ok name, s') \<longrightarrow>
      (\<exists>resp. httpClient_Do env (getLayerURL img digest) [bearer token] = Inr resp
         \<and> StatusCode resp = 200
         \<and> name = drop 7 digest @ ''.tar.gz''
         \<and> files s' (hostPath s name) = Some (Body resp)))
   \<and> (http_NewRequest env (getLayerURL img digest) = None
        \<and> httpClient_Do env (getLayerURL img digest) [bearer token] = Inr resp
        \<and> StatusCode resp = 200 \<and> 7 \<le> length digest
        \<and> os_Create env (layerFileName digest) = None
        \<and> io_Copy env (layerFileName digest) (Body resp) = None
      \<longrightarrow> fst (pullLayers env img token digest s) = Ok (drop 7 digest @ ''.tar.gz''))
   \<and> (length alg = 6 \<and> pullLayers env img token (alg @ '':'' @ hex) s = (Ok name, s')
      \<longrightarrow> name = hex @ ''.tar.gz'')
   \<and> (http_NewRequest env (getLayerURL img digest) = None
        \<and> httpClient_Do env (getLayerURL img digest) [bearer token] = Inr resp
        \<and> StatusCode resp \<noteq> 200
      \<longrightarrow> fst (pullLayers env img token digest s) = Fail (Err ''Error getting layer''))"
proof (intro conjI impI)
  assume "pullLayers env img token digest s = (Ok name, s')"
  then show "\<exists>resp. httpClient_Do env (getLayerURL img digest) [bearer token] = Inr resp
         \<and> StatusCode resp = 200
         \<and> name = drop 7 digest @ ''.tar.gz''
         \<and> files s' (hostPath s name) = Some (Body resp)"
    by (rule pullLayers_Ok_file)
next
  assume "http_NewRequest env (getLayerURL img digest) = None
        \<and> httpClient_Do env (getLayerURL img digest) [bearer token] = Inr resp
        \<and> StatusCode resp = 200 \<and> 7 \<le> length digest
        \<and> os_Create env (layerFileName digest) = None
        \<and> io_Copy env (layerFileName digest) (Body resp) = None"
  then show "fst (pullLayers env img token digest s) = Ok (drop 7 digest @ ''.tar.gz'')"
    by (simp add: pullLayers_succeeds layerFileName_def)
next
  assume "length alg = 6 \<and> pullLayers env img token (alg @ '':'' @ hex) s = (Ok name, s')"
  then show "name = hex @ ''.tar.gz''"
    using pullLayers_Ok_six by blast
next
  assume "http_NewRequest env (getLayerURL img digest) = None
        \<and> httpClient_Do env (getLayerURL img digest) [bearer token] = Inr resp
        \<and> StatusCode resp \<noteq> 200"
  then show "fst (pullLayers env img token digest s) = Fail (Err ''Error getting layer'')"
    by (simp add: pullLayers_non200)
qed

theorem pullLayers_names_file_witness:
  "fst (pullLayers demo_env ''alpine'' ''t0'' ''sha256:aa'' world0) = Ok ''aa.tar.gz''
   \<and> fst (pullLayers demo_env ''alpine'' ''t0'' ''sha256:zz'' world0)
       = Fail (Err ''Error getting layer'')"
proof -
  have served: "http_NewRequest demo_env (getLayerURL ''alpine'' ''sha256:aa'') = None
      \<and> httpClient_Do demo_env (getLayerURL ''alpine'' ''sha256:aa'') [bearer ''t0'']
          = Inr (ok_response ''blob A'')
      \<and> StatusCode (ok_response ''blob A'') = 200 \<and> 7 \<le> length ''sha256:aa''
      \<and> os_Create demo_env (layerFileName ''sha256:aa'') = None
      \<and> io_Copy demo_env (layerFileName ''sha256:aa'') (Body (ok_response ''blob A'')) = None"
    by (simp add: model_defs demo_defs)
  have missing: "http_NewRequest demo_env (getLayerURL ''alpine'' ''sha256:zz'') = None
      \<and> httpClient_Do demo_env (getLayerURL ''alpine'' ''sha256:zz'') [bearer ''t0'']
          = Inr not_found
      \<and> StatusCode not_found \<noteq> 200"
    by (simp add: model_defs demo_defs)
  have "fst (pullLayers demo_env ''alpine'' ''t0'' ''sha256:aa'' world0)
      = Ok (drop 7 ''sha256:aa'' @ ''.tar.gz'')"
    using served
      pullLayers_names_file [of demo_env "''alpine''" "''t0''" "''sha256:aa''" world0
        "''aa.tar.gz''" world0 "ok_response ''blob A''" "''sha256''" "''aa''"]
    by blast
  moreover have "fst (pullLayers demo_env ''alpine'' ''t0'' ''sha256:zz'' world0)
      = Fail (Err ''Error getting layer'')"
    using missing
      pullLayers_names_file [of demo_env "''alpine''" "''t0''" "''sha256:zz''" world0
        "''aa.tar.gz''" world0 not_found "''sha256''" "''aa''"]
    by blast
  ultimately show ?thesis
    by simp
qed

text \<open>
  C7 as stated fails: for the digest \<open>md5:0123456789\<close> the download succeeds and the file is
  \<open>3456789.tar.gz\<close>, not the digest without its algorithm prefix.
\<close>

theorem pullLayers_file_counterexample:
  "fst (pullLayers any_blob_env ''alpine'' ''t0'' (''md5'' @ '':'' @ ''0123456789'') world0)
     = Ok ''3456789.tar.gz''
   \<and> ''3456789.tar.gz'' \<noteq> ''0123456789'' @ ''.tar.gz''"
  by (simp add: model_defs demo_defs)

subsection \<open>Fetching the manifest\<close>

lemma getManifest_non200:
  assumes "http_NewRequest env (getManifestURL img tag) = None"
    and "httpClient_Do env (getManifestURL img tag) [bearer token, (''Accept'', contentTypeHeader)] = Inr resp"
    and "StatusCode resp \<noteq> 200"
  shows "getManifest env img token tag s
         = (Fail (Err (''Error getting manifest. Status: '' @ Status resp @ ''. Response: '' @ Body resp)),
            log_event (HttpGet (getManifestURL img tag)) s)"
  using assms by (simp add: getManifest_def Let_def)

lemma getManifest_200:
  assumes "http_NewRequest env (getManifestURL img tag) = None"
    and "httpClient_Do env (getManifestURL img tag) [bearer token, (''Accept'', contentTypeHeader)] = Inr resp"
    and "StatusCode resp = 200"
  shows "getManifest env img token tag s
         = (case json_Decode_manifest env (Body resp) of Inl m \<Rightarrow> Fail (Err m) | Inr mf \<Rightarrow> Ok mf,
            log_event (HttpGet (getManifestURL img tag)) s)"
  using assms by (simp add: getManifest_def Let_def split: sum.splits)

lemma getManifest_no_panic: "fst (getManifest env img token tag s) \<noteq> Panic m"
  by (simp add: getManifest_def Let_def split: sum.splits option.splits)

lemma getManifest_no_ExitError: "fst (getManifest env img token tag s) \<noteq> Fail (ExitError k)"
  by (simp add: getManifest_def Let_def split: sum.splits option.splits)

lemma getManifest_world:
  "snd (getManifest env img token tag s) = s
   \<or> snd (getManifest env img token tag s) = log_event (HttpGet (getManifestURL img tag)) s"
  by (simp add: getManifest_def Let_def split: sum.splits option.splits)

lemma assemble_manifest_fails:
  assumes "parseImage imageName = (img, tag)"
   and "getToken env (''library/'' @ img) s = (Ok token, s1)"
   and "fst (getManifest env img token tag s1) = Fail e"
 shows "assemble env imageName dir s = (case handleError e (snd (getManifest env img token tag s1)) of (fl, s') \<Rightarrow> (Inl fl, s'))"
  using assms by (cases "getManifest env img token tag s1") (simp add: assemble_def)

lemma main_stage_fails:
  assumes "4 \<le> length Args" and "MkdirTemp env s = (Ok dir, s0)"
    and "assemble env (Args ! 2) dir s0 = (Inl (OsExit k), s')"
  shows "main env Args s = (Exited k, s')"
  using assms by (simp add: main_def main_body_def)


lemma handleError_Err:
  "handleError (Err m) s = (OsExit 1, s\<lparr>stdout := stdout s @ [''Error '' @ m @ [CHR 0x0A]]\<rparr>)"
  by simp

lemma assemble_manifest_Fail:
  assumes "parseImage imageName = (img, tag)"
    and "getToken env (''library/'' @ img) s0 = (Ok token, s)"
    and "getManifest env img token tag s = (Fail (Err m), s')"
  shows "assemble env imageName dir s0
         = (Inl (OsExit 1), s'\<lparr>stdout := stdout s' @ [''Error '' @ m @ [CHR 0x0A]]\<rparr>)"
  using assms by (simp add: assemble_def)

text \<open>
  C4, as the program has it. For a response other than 200, \<^verbatim>\<open>getManifest\<close> returns an error
  whose message carries the status and the response body. For a 200 response it returns
  what the JSON decoder returns: the decoder's error as the error, and whatever the decoder
  accepts as the manifest, with no check of its own. When \<^verbatim>\<open>getManifest\<close> returns an error
  the run prints it and exits with code 1, and the manifest request is the last call it
  made: no download, no extraction, no change of root follows.
\<close>

theorem getManifest_status_and_decode:
  assumes "http_NewRequest env (getManifestURL img tag) = None"
    and "httpClient_Do env (getManifestURL img tag) [bearer token, (''Accept'', contentTypeHeader)]
         = Inr resp"
  shows "(StatusCode resp \<noteq> 200 \<longrightarrow>
            fst (getManifest env img token tag s)
            = Fail (Err (''Error getting manifest. Status: '' @ Status resp
                         @ ''. Response: '' @ Body resp)))
       \<and> (StatusCode resp = 200 \<longrightarrow>
            fst (getManifest env img token tag s)
            = (case json_Decode_manifest env (Body resp) of
                 Inl m \<Rightarrow> Fail (Err m) | Inr manifest \<Rightarrow> Ok manifest))
       \<and> (parseImage imageName = (img, tag)
            \<and> getToken env (''library/'' @ img) s0 = (Ok token, s)
            \<and> fst (getManifest env img token tag s) = Fail (Err m)
          \<longrightarrow> assemble env imageName dir s0
               = (Inl (OsExit 1),
                  (log_event (HttpGet (getManifestURL img tag)) s)
                    \<lparr>stdout := stdout s @ [''Error '' @ m @ [CHR 0x0A]]\<rparr>))"
proof (intro conjI impI)
  assume "StatusCode resp \<noteq> 200"
  with assms show "fst (getManifest env img token tag s)
            = Fail (Err (''Error getting manifest. Status: '' @ Status resp
                         @ ''. Response: '' @ Body resp))"
    by (simp add: getManifest_non200)
next
  assume "StatusCode resp = 200"
  with assms show "fst (getManifest env img token tag s)
            = (case json_Decode_manifest env (Body resp) of
                 Inl m \<Rightarrow> Fail (Err m) | Inr manifest \<Rightarrow> Ok manifest)"
    by (simp add: getManifest_200)
next
  assume h: "parseImage imageName = (img, tag)
            \<and> getToken env (''library/'' @ img) s0 = (Ok token, s)
            \<and> fst (getManifest env img token tag s) = Fail (Err m)"
  have "snd (getManifest env img token tag s) = log_event (HttpGet (getManifestURL img tag)) s"
    using assms by (cases "StatusCode resp = 200") (simp_all add: getManifest_200 getManifest_non200)
  with h have "getManifest env img token tag s
      = (Fail (Err m), log_event (HttpGet (getManifestURL img tag)) s)"
    by (simp add: prod_eq_iff)
  with h have "assemble env imageName dir s0
      = (Inl (OsExit 1),
         (log_event (HttpGet (getManifestURL img tag)) s)
           \<lparr>stdout := stdout (log_event (HttpGet (getManifestURL img tag)) s)
                @ [''Error '' @ m @ [CHR 0x0A]]\<rparr>)"
    by (simp only: assemble_manifest_Fail)
  then show "assemble env imageName dir s0
               = (Inl (OsExit 1),
                  (log_event (HttpGet (getManifestURL img tag)) s)
                    \<lparr>stdout := stdout s @ [''Error '' @ m @ [CHR 0x0A]]\<rparr>)"
    by simp
qed


theorem getManifest_status_and_decode_witness:
  "fst (getManifest demo_env ''alpine'' ''t0'' ''9'' world0)
     = Fail (Err (''Error getting manifest. Status: '' @ ''404 Not Found''
                  @ ''. Response: '' @ ''{}''))
   \<and> fst (getManifest demo_env ''alpine'' ''t0'' ''latest'' world0)
     = Ok (Some (manifest_of [layer_of ''sha256:aa'', layer_of ''sha256:bb'']))
   \<and> assemble demo_env ''alpine:9'' ''/tmp/my-docker1'' world0
       = (Inl (OsExit 1),
          (log_event (HttpGet (getManifestURL ''alpine'' ''9''))
             (log_event (HttpGet (getTokenURL ''library/alpine'')) world0))
            \<lparr>stdout := stdout (log_event (HttpGet (getTokenURL ''library/alpine'')) world0)
                 @ [''Error '' @ (''Error getting manifest. Status: '' @ ''404 Not Found''
                  @ ''. Response: '' @ ''{}'') @ [CHR 0x0A]]\<rparr>)"
proof -
  have req9: "http_NewRequest demo_env (getManifestURL ''alpine'' ''9'') = None"
    by (simp add: demo_defs)
  have do9: "httpClient_Do demo_env (getManifestURL ''alpine'' ''9'')
           [bearer ''t0'', (''Accept'', contentTypeHeader)] = Inr not_found"
    by (simp add: model_defs demo_defs)
  have nf: "StatusCode not_found \<noteq> 200" "Status not_found = ''404 Not Found''"
    "Body not_found = ''{}''"
    by (simp_all add: not_found_def)
  have reqL: "http_NewRequest demo_env (getManifestURL ''alpine'' ''latest'') = None"
    by (simp add: demo_defs)
  have doL: "httpClient_Do demo_env (getManifestURL ''alpine'' ''latest'')
           [bearer ''t0'', (''Accept'', contentTypeHeader)] = Inr (ok_response ''manifest'')"
    by (simp add: model_defs demo_defs)
  have okL: "StatusCode (ok_response ''manifest'') = 200"
    by (simp add: ok_response_def)
  have decL: "json_Decode_manifest demo_env (Body (ok_response ''manifest''))
          = Inr (Some (manifest_of [layer_of ''sha256:aa'', layer_of ''sha256:bb'']))"
    by (simp add: demo_env_def ok_response_def)
  have parsed: "parseImage ''alpine:9'' = (''alpine'', ''9'')"
    by (simp add: parseImage_def)
  have token: "getToken demo_env (''library/'' @ ''alpine'') world0
          = (Ok ''t0'', log_event (HttpGet (getTokenURL ''library/alpine'')) world0)"
    by (simp add: getToken_def Let_def getTokenURL_def getManifestURL_def getLayerURL_def
        demo_defs)
  have a: "fst (getManifest demo_env ''alpine'' ''t0'' ''9'' world0)
     = Fail (Err (''Error getting manifest. Status: '' @ ''404 Not Found''
                  @ ''. Response: '' @ ''{}''))"
    using getManifest_status_and_decode [OF req9 do9, THEN conjunct1, THEN mp, OF nf(1)]
    unfolding nf(2,3) .
  have a': "fst (getManifest demo_env ''alpine'' ''t0'' ''9''
                   (log_event (HttpGet (getTokenURL ''library/alpine'')) world0))
     = Fail (Err (''Error getting manifest. Status: '' @ ''404 Not Found''
                  @ ''. Response: '' @ ''{}''))"
    using getManifest_status_and_decode [OF req9 do9, THEN conjunct1, THEN mp, OF nf(1)]
    unfolding nf(2,3) .
  have b: "fst (getManifest demo_env ''alpine'' ''t0'' ''latest'' world0)
     = Ok (Some (manifest_of [layer_of ''sha256:aa'', layer_of ''sha256:bb'']))"
    using getManifest_status_and_decode [OF reqL doL, THEN conjunct2, THEN conjunct1, THEN mp,
        OF okL, of world0]
    unfolding decL by simp
  note c = getManifest_status_and_decode [OF req9 do9, THEN conjunct2, THEN conjunct2, THEN mp,
      OF conjI [OF parsed conjI [OF token a']]]
  from a b c show ?thesis
    by (intro conjI)
qed

text \<open>
  C4 as stated fails: the body \<^verbatim>\<open>{}\<close> holds no layer sequence, the decoder accepts it, and
  \<^verbatim>\<open>getManifest\<close> returns the manifest with every field zero; the run goes on with it, changes
  root into the empty directory and launches the command.
\<close>

theorem getManifest_strict_counterexample:
  "httpClient_Do lenient_env (getManifestURL ''alpine'' ''latest'')
       [bearer [], (''Accept'', contentTypeHeader)]
     = Inr \<lparr>StatusCode = 200, Status = ''200 OK'', Body = ''{}''\<rparr>
   \<and> fst (getManifest lenient_env ''alpine'' [] ''latest'' world0) = Ok (Some zero_manifest)
   \<and> Layers zero_manifest = []
   \<and> fst (main lenient_env demo_args world0) = Exited 0
   \<and> trace (snd (main lenient_env demo_args world0))
       = [HttpGet (getTokenURL ''library/alpine''), HttpGet (getManifestURL ''alpine'' ''latest''),
          Chroot ''/tmp/my-docker1'', RunCommand ''/bin/echo'' [''hello'']]"
  by (simp add: model_defs demo_defs)

subsection \<open>Fetching the token\<close>

lemma getToken_Ok:
  assumes "fst (getToken env img s) = Ok t"
  shows "\<exists>resp tr. httpClient_Do env (getTokenURL img) [] = Inr resp \<and> StatusCode resp = 200
          \<and> json_Decode_token env (Body resp) = Inr tr \<and> Token tr = t"
  using assms
  by (auto simp add: getToken_def Let_def split: option.splits sum.splits if_splits)

lemma getToken_sent:
  assumes "http_NewRequest env (getTokenURL img) = None"
  shows "getToken env img s
         = (case httpClient_Do env (getTokenURL img) [] of
              Inl m \<Rightarrow> Fail (Err m)
            | Inr resp \<Rightarrow>
                if StatusCode resp \<noteq> 200 then Fail (Err ''Error getting token'')
                else (case json_Decode_token env (Body resp) of
                        Inl m \<Rightarrow> Fail (Err m) | Inr tr \<Rightarrow> Ok (Token tr)),
            log_event (HttpGet (getTokenURL img)) s)"
  using assms by (simp add: getToken_def Let_def split: sum.splits)

lemma assemble_token_Fail:
  assumes "parseImage imageName = (name, tag)"
    and "getToken env (''library/'' @ name) s = (Fail (Err m), s')"
  shows "assemble env imageName dir s
         = (Inl (OsExit 1), s'\<lparr>stdout := stdout s' @ [''Error '' @ m @ [CHR 0x0A]]\<rparr>)"
  using assms by (simp add: assemble_def)

lemma MkdirTemp_Inr:
  assumes "os_MkdirTemp env = Inr dir"
  shows "MkdirTemp env s
         = (Ok dir, s\<lparr>dirs := insert (hostPath s dir) (dirs s),
                        files := (\<lambda>q. if below (hostPath s dir) q then None else files s q)\<rparr>)"
  using assms by (simp add: MkdirTemp_def)

lemma main_assemble_exits:
  assumes "4 \<le> length Args" and "MkdirTemp env s = (Ok dir, s0)"
    and "assemble env (Args ! 2) dir s0 = (Inl (OsExit k), s')"
  shows "main env Args s = (Exited k, s')"
  using assms by (simp add: main_def main_body_def)

lemma main_token_non200:
  assumes "4 \<le> length Args" and "os_MkdirTemp env = Inr dir"
    and "parseImage (Args ! 2) = (name, tag)"
    and "http_NewRequest env (getTokenURL (''library/'' @ name)) = None"
    and "httpClient_Do env (getTokenURL (''library/'' @ name)) [] = Inr resp"
    and "StatusCode resp \<noteq> 200"
  shows "fst (main env Args s) = Exited 1"
    and "trace (snd (main env Args s)) = trace s @ [HttpGet (getTokenURL (''library/'' @ name))]"
    and "stdout (snd (main env Args s)) = stdout s @ [''Error Error getting token'' @ [CHR 0x0A]]"
    and "stderr (snd (main env Args s)) = stderr s"
proof -
  let ?s0 = "s\<lparr>dirs := insert (hostPath s dir) (dirs s),
                files := (\<lambda>q. if below (hostPath s dir) q then None else files s q)\<rparr>"
  let ?s1 = "log_event (HttpGet (getTokenURL (''library/'' @ name))) ?s0"
  have "getToken env (''library/'' @ name) ?s0 = (Fail (Err ''Error getting token''), ?s1)"
    using assms(4,5,6) by (simp add: getToken_sent)
  with assms(3) have "assemble env (Args ! 2) dir ?s0
      = (Inl (OsExit 1), ?s1\<lparr>stdout := stdout ?s1 @ [''Error '' @ ''Error getting token'' @ [CHR 0x0A]]\<rparr>)"
    by (rule assemble_token_Fail)
  with assms(1) MkdirTemp_Inr [OF assms(2)] have m: "main env Args s
      = (Exited 1, ?s1\<lparr>stdout := stdout ?s1 @ [''Error '' @ ''Error getting token'' @ [CHR 0x0A]]\<rparr>)"
    by (simp only: main_assemble_exits)
  show "fst (main env Args s) = Exited 1"
    by (simp only: m fst_conv)
  show "trace (snd (main env Args s)) = trace s @ [HttpGet (getTokenURL (''library/'' @ name))]"
    unfolding m by simp
  show "stdout (snd (main env Args s)) = stdout s @ [''Error Error getting token'' @ [CHR 0x0A]]"
    unfolding m by simp
  show "stderr (snd (main env Args s)) = stderr s"
    unfolding m by simp
qed

text \<open>
  C5, as the program has it. \<^verbatim>\<open>getToken\<close> succeeds only when the endpoint answers 200 and the
  JSON decoder accepts the body, and then it does succeed, with the decoded token field as
  the token. A transport failure, a status other than 200 and a body the decoder rejects
  each give an error. When the token endpoint answers with another status than 200, the
  run prints the error, exits with code 1, and the token request is the only external call
  it has made.
\<close>

theorem getToken_succeeds_iff_decoded:
  "(fst (getToken env img s) = Ok t \<longrightarrow>
      (\<exists>resp tr. httpClient_Do env (getTokenURL img) [] = Inr resp \<and> StatusCode resp = 200
         \<and> json_Decode_token env (Body resp) = Inr tr \<and> Token tr = t))
   \<and> (http_NewRequest env (getTokenURL img) = None
        \<and> httpClient_Do env (getTokenURL img) [] = Inr resp \<and> StatusCode resp = 200
        \<and> json_Decode_token env (Body resp) = Inr tr
      \<longrightarrow> fst (getToken env img s) = Ok (Token tr))
   \<and> (http_NewRequest env (getTokenURL img) = None
        \<and> httpClient_Do env (getTokenURL img) [] = Inl m
      \<longrightarrow> fst (getToken env img s) = Fail (Err m))
   \<and> (http_NewRequest env (getTokenURL img) = None
        \<and> httpClient_Do env (getTokenURL img) [] = Inr resp \<and> StatusCode resp \<noteq> 200
      \<longrightarrow> fst (getToken env img s) = Fail (Err ''Error getting token''))
   \<and> (http_NewRequest env (getTokenURL img) = None
        \<and> httpClient_Do env (getTokenURL img) [] = Inr resp \<and> StatusCode resp = 200
        \<and> json_Decode_token env (Body resp) = Inl m
      \<longrightarrow> fst (getToken env img s) = Fail (Err m))
   \<and> (4 \<le> length Args \<and> os_MkdirTemp env = Inr dir \<and> parseImage (Args ! 2) = (name, tag)
        \<and> http_NewRequest env (getTokenURL (''library/'' @ name)) = None
        \<and> httpClient_Do env (getTokenURL (''library/'' @ name)) [] = Inr resp
        \<and> StatusCode resp \<noteq> 200
      \<longrightarrow> fst (main env Args s) = Exited 1
          \<and> trace (snd (main env Args s))
              = trace s @ [HttpGet (getTokenURL (''library/'' @ name))]
          \<and> stdout (snd (main env Args s))
              = stdout s @ [''Error Error getting token'' @ [CHR 0x0A]])"
proof (intro conjI impI)
  assume "fst (getToken env img s) = Ok t"
  then show "\<exists>resp tr. httpClient_Do env (getTokenURL img) [] = Inr resp \<and> StatusCode resp = 200
         \<and> json_Decode_token env (Body resp) = Inr tr \<and> Token tr = t"
    by (rule getToken_Ok)
next
  assume "http_NewRequest env (getTokenURL img) = None
        \<and> httpClient_Do env (getTokenURL img) [] = Inr resp \<and> StatusCode resp = 200
        \<and> json_Decode_token env (Body resp) = Inr tr"
  then show "fst (getToken env img s) = Ok (Token tr)"
    by (simp add: getToken_sent)
next
  assume "http_NewRequest env (getTokenURL img) = None
        \<and> httpClient_Do env (getTokenURL img) [] = Inl m"
  then show "fst (getToken env img s) = Fail (Err m)"
    by (simp add: getToken_sent)
next
  assume "http_NewRequest env (getTokenURL img) = None
        \<and> httpClient_Do env (getTokenURL img) [] = Inr resp \<and> StatusCode resp \<noteq> 200"
  then show "fst (getToken env img s) = Fail (Err ''Error getting token'')"
    by (simp add: getToken_sent)
next
  assume "http_NewRequest env (getTokenURL img) = None
        \<and> httpClient_Do env (getTokenURL img) [] = Inr resp \<and> StatusCode resp = 200
        \<and> json_Decode_token env (Body resp) = Inl m"
  then show "fst (getToken env img s) = Fail (Err m)"
    by (simp add: getToken_sent)
next
  assume h: "4 \<le> length Args \<and> os_MkdirTemp env = Inr dir \<and> parseImage (Args ! 2) = (name, tag)
        \<and> http_NewRequest env (getTokenURL (''library/'' @ name)) = None
        \<and> httpClient_Do env (getTokenURL (''library/'' @ name)) [] = Inr resp
        \<and> StatusCode resp \<noteq> 200"
  then show "fst (main env Args s) = Exited 1"
    using main_token_non200(1) by blast
  from h show "trace (snd (main env Args s))
              = trace s @ [HttpGet (getTokenURL (''library/'' @ name))]"
    using main_token_non200(2) by blast
  from h show "stdout (snd (main env Args s))
              = stdout s @ [''Error Error getting token'' @ [CHR 0x0A]]"
    using main_token_non200(3) by blast
qed

theorem getToken_succeeds_iff_decoded_witness:
  "fst (getToken demo_env ''library/alpine'' world0) = Ok (Token token_t0)
   \<and> fst (main denied_env demo_args world0) = Exited 1
   \<and> trace (snd (main denied_env demo_args world0))
       = trace world0 @ [HttpGet (getTokenURL (''library/'' @ ''alpine''))]
   \<and> stdout (snd (main denied_env demo_args world0))
       = stdout world0 @ [''Error Error getting token'' @ [CHR 0x0A]]"
proof -
  have granted: "http_NewRequest demo_env (getTokenURL ''library/alpine'') = None
        \<and> httpClient_Do demo_env (getTokenURL ''library/alpine'') [] = Inr (ok_response token_body)
        \<and> StatusCode (ok_response token_body) = 200
        \<and> json_Decode_token demo_env (Body (ok_response token_body)) = Inr token_t0"
    by (simp add: demo_env_def ok_response_def)
  have denied: "4 \<le> length demo_args \<and> os_MkdirTemp denied_env = Inr ''/tmp/my-docker1''
        \<and> parseImage (demo_args ! 2) = (''alpine'', ''latest'')
        \<and> http_NewRequest denied_env (getTokenURL (''library/'' @ ''alpine'')) = None
        \<and> httpClient_Do denied_env (getTokenURL (''library/'' @ ''alpine'')) [] = Inr unauthorized
        \<and> StatusCode unauthorized \<noteq> 200"
    by (simp add: denied_env_def demo_env_def demo_args_def unauthorized_def parseImage_def)
  note ok = getToken_succeeds_iff_decoded [THEN conjunct2, THEN conjunct1, THEN mp, OF granted]
  note no = getToken_succeeds_iff_decoded [THEN conjunct2, THEN conjunct2, THEN conjunct2,
      THEN conjunct2, THEN conjunct2, THEN mp, OF denied]
  from ok [of world0] no [of world0] show ?thesis
    by (intro conjI) simp_all
qed

text \<open>
  C5 as stated fails: the body \<^verbatim>\<open>{}\<close> holds no token field, the decoder accepts it, and
  \<^verbatim>\<open>getToken\<close> succeeds with the empty token.
\<close>

theorem getToken_token_field_counterexample:
  "httpClient_Do lenient_env (getTokenURL ''library/alpine'') []
     = Inr \<lparr>StatusCode = 200, Status = ''200 OK'', Body = ''{}''\<rparr>
   \<and> fst (getToken lenient_env ''library/alpine'' world0) = Ok []"
  by (simp add: getToken_def Let_def getTokenURL_def demo_defs)

subsection \<open>Launching the command\<close>

lemma launch_ExitStatus:
  assumes "cmd_Run env command args = ExitStatus k"
  shows "launch env command args s
         = (if k = 0 then Returned else OsExit (int k), log_event (RunCommand command args) s)"
  using assms by (simp add: launch_def Let_def)

lemma launch_StartFailed:
  assumes "cmd_Run env command args = StartFailed m"
  shows "launch env command args s
         = (OsExit 1, (log_event (RunCommand command args) s)
               \<lparr>stdout := stdout s @ [''Error '' @ m @ [CHR 0x0A]]\<rparr>)"
  using assms by (simp add: launch_def Let_def)

lemma main_launches:
  assumes "4 \<le> length Args" and "MkdirTemp env s = (Ok dir, s0)"
    and "assemble env (Args ! 2) dir s0 = (Inr (), s1)"
  shows "main env Args s = exit_main (RemoveAll dir) (launch env (Args ! 3) (drop 4 Args) s1)"
  using assms by (simp add: main_def main_body_def)

text \<open>
  C6. In a run that reaches the launch, a command that starts and exits with status \<open>k\<close>
  makes the process exit with status \<open>k\<close>, and the process prints nothing about it; a
  command that cannot be started is another outcome: the process prints the error and
  exits with status 1.
\<close>

theorem launch_exit_status:
  assumes "4 \<le> length Args" and "MkdirTemp env s = (Ok dir, s0)"
    and "assemble env (Args ! 2) dir s0 = (Inr (), s1)"
  shows "(cmd_Run env (Args ! 3) (drop 4 Args) = ExitStatus k \<longrightarrow>
            fst (main env Args s) = Exited (int k)
            \<and> stdout (snd (main env Args s)) = stdout s1)
       \<and> (cmd_Run env (Args ! 3) (drop 4 Args) = StartFailed m \<longrightarrow>
            fst (main env Args s) = Exited 1
            \<and> stdout (snd (main env Args s)) = stdout s1 @ [''Error '' @ m @ [CHR 0x0A]])"
proof (intro conjI impI)
  assume r: "cmd_Run env (Args ! 3) (drop 4 Args) = ExitStatus k"
  show "fst (main env Args s) = Exited (int k)"
    by (simp add: main_launches [OF assms] launch_ExitStatus [OF r])
  show "stdout (snd (main env Args s)) = stdout s1"
    by (simp add: main_launches [OF assms] launch_ExitStatus [OF r])
next
  assume r: "cmd_Run env (Args ! 3) (drop 4 Args) = StartFailed m"
  show "fst (main env Args s) = Exited 1"
    by (simp add: main_launches [OF assms] launch_StartFailed [OF r])
  show "stdout (snd (main env Args s)) = stdout s1 @ [''Error '' @ m @ [CHR 0x0A]]"
    by (simp add: main_launches [OF assms] launch_StartFailed [OF r])
qed


lemma demo_MkdirTemp:
  "MkdirTemp demo_env world0 = (Ok ''/tmp/my-docker1'', snd (MkdirTemp demo_env world0))"
  by (simp add: MkdirTemp_def demo_env_def)

lemma demo_assemble:
  "assemble demo_env ''alpine'' ''/tmp/my-docker1'' (snd (MkdirTemp demo_env world0))
   = (Inr (), snd (assemble demo_env ''alpine'' ''/tmp/my-docker1'' (snd (MkdirTemp demo_env world0))))"
  by (simp add: model_defs demo_defs)

lemma demo_assemble_stdout:
  "stdout (snd (assemble demo_env ''alpine'' ''/tmp/my-docker1'' (snd (MkdirTemp demo_env world0)))) = []"
  by (simp add: model_defs demo_defs)

lemma no_binary_MkdirTemp:
  "MkdirTemp no_binary_env world0 = (Ok ''/tmp/my-docker1'', snd (MkdirTemp no_binary_env world0))"
  by (simp add: MkdirTemp_def demo_env_def no_binary_env_def)

lemma no_binary_assemble:
  "assemble no_binary_env ''alpine'' ''/tmp/my-docker1'' (snd (MkdirTemp no_binary_env world0))
   = (Inr (), snd (assemble no_binary_env ''alpine'' ''/tmp/my-docker1''
                     (snd (MkdirTemp no_binary_env world0))))"
  by (simp add: model_defs demo_defs no_binary_env_def)

lemma no_binary_assemble_stdout:
  "stdout (snd (assemble no_binary_env ''alpine'' ''/tmp/my-docker1''
                  (snd (MkdirTemp no_binary_env world0)))) = []"
  by (simp add: model_defs demo_defs no_binary_env_def)

theorem launch_exit_status_witness:
  "fst (main demo_env false_args world0) = Exited 3
   \<and> fst (main no_binary_env demo_args world0) = Exited 1
   \<and> stdout (snd (main no_binary_env demo_args world0))
       = [''Error '' @ ''exec: not found'' @ [CHR 0x0A]]"
proof -
  have len: "4 \<le> length false_args" "4 \<le> length demo_args"
    by (simp_all add: false_args_def demo_args_def)
  have img: "false_args ! 2 = ''alpine''" "demo_args ! 2 = ''alpine''"
    by (simp_all add: false_args_def demo_args_def)
  have ran: "cmd_Run demo_env (false_args ! 3) (drop 4 false_args) = ExitStatus 3"
    by (simp add: false_args_def demo_env_def)
  have failed: "cmd_Run no_binary_env (demo_args ! 3) (drop 4 demo_args)
      = StartFailed ''exec: not found''"
    by (simp add: no_binary_env_def)
  have a: "assemble demo_env (false_args ! 2) ''/tmp/my-docker1'' (snd (MkdirTemp demo_env world0))
      = (Inr (), snd (assemble demo_env ''alpine'' ''/tmp/my-docker1''
                        (snd (MkdirTemp demo_env world0))))"
    unfolding img by (rule demo_assemble)
  have b: "assemble no_binary_env (demo_args ! 2) ''/tmp/my-docker1''
        (snd (MkdirTemp no_binary_env world0))
      = (Inr (), snd (assemble no_binary_env ''alpine'' ''/tmp/my-docker1''
                        (snd (MkdirTemp no_binary_env world0))))"
    unfolding img by (rule no_binary_assemble)
  note t1 = launch_exit_status [OF len(1) demo_MkdirTemp a, THEN conjunct1, THEN mp, OF ran]
  note t2 = launch_exit_status [OF len(2) no_binary_MkdirTemp b, THEN conjunct2, THEN mp,
      OF failed]
  from t1 t2 show ?thesis
    by (simp add: no_binary_assemble_stdout)
qed

subsection \<open>How a run ends\<close>

lemma pull_loop_frame:
  "pull_loop env img token ls acc s = (Inr names, s') \<Longrightarrow>
   dirs s' = dirs s \<and> root s' = root s \<and> stdout s' = stdout s \<and> stderr s' = stderr s"
proof (induction ls arbitrary: acc s)
  case Nil
  then show ?case by simp
next
  case (Cons l ls)
  obtain r s1 where p: "pullLayers env img token (Digest l) s = (r, s1)"
    by (cases "pullLayers env img token (Digest l) s")
  note fr = pullLayers_frame [OF p]
  from Cons.prems p obtain name where "r = Ok name"
    and "pull_loop env img token ls (acc @ [name]) s1 = (Inr names, s')"
    by (cases r) (auto split: prod.splits)
  from Cons.IH [OF this(2)] fr show ?case
    by simp
qed

lemma extractTar_Fail:
  assumes "extractTar env src dest s = (Fail e, s')"
  shows "run_error (snd (tar_xzf env (files s (hostPath s src)))) = Some e"
  using assms by (auto simp add: extractTar_def Let_def split: prod.splits option.splits)

lemma extract_loop_frame:
  "extract_loop env names dir s = (Inr u, s') \<Longrightarrow>
   dirs s' = dirs s \<and> root s' = root s \<and> stdout s' = stdout s \<and> stderr s' = stderr s"
proof (induction names arbitrary: s)
  case Nil
  then show ?case by simp
next
  case (Cons n names)
  obtain r s1 where p: "extractTar env n dir s = (r, s1)"
    by (cases "extractTar env n dir s")
  note fr = extractTar_frame [OF p]
  from Cons.prems p have "extract_loop env names dir s1 = (Inr u, s')"
    by (cases r) (auto split: prod.splits)
  from Cons.IH [OF this] fr show ?case
    by simp
qed

lemma stage_Fail_Err:
  "fst (getToken env img s) = Fail e \<Longrightarrow> \<exists>m. e = Err m"
  "fst (getManifest env img token tag s) = Fail e \<Longrightarrow> \<exists>m. e = Err m"
  "fst (createFileSystem env dir s) = Fail e \<Longrightarrow> \<exists>m. e = Err m"
  using getToken_result(2) [of env img s] getManifest_result(2) [of env img token tag s]
    createFileSystem_result(2) [of env dir s]
  by (cases e; auto)+

lemma MkdirTemp_Inl:
  assumes "os_MkdirTemp env = Inl m"
  shows "MkdirTemp env s = (Fail (Err m), s)"
  using assms by (simp add: MkdirTemp_def)

lemma MkdirTemp_frame:
  assumes "MkdirTemp env s = (r, s')"
  shows "root s' = root s \<and> stdout s' = stdout s \<and> stderr s' = stderr s \<and> trace s' = trace s"
  using assms by (auto simp add: MkdirTemp_def split: sum.splits)

lemma main_MkdirTemp_fails:
  assumes "4 \<le> length Args" and "os_MkdirTemp env = Inl m"
  shows "main env Args s = (Exited 1, s\<lparr>stdout := stdout s @ [error_line m]\<rparr>)"
  using assms by (simp add: main_def MkdirTemp_Inl error_line_def)

lemma handleError_error_line:
  "handleError (Err m) s = (OsExit 1, s\<lparr>stdout := stdout s @ [error_line m]\<rparr>)"
  by (simp add: error_line_def)

lemma pull_loop_fails_at:
  assumes "pull_loop env img token pre acc s = (Inr names, s3)"
    and "pullLayers env img token (Digest l) s3 = (Fail (Err m), s4)"
  shows "pull_loop env img token (pre @ l # post) acc s
         = (Inl (OsExit 1), s4\<lparr>stdout := stdout s4 @ [error_line m]\<rparr>)"
  using assms
proof (induction pre arbitrary: acc s)
  case Nil
  then show ?case
    by (simp add: error_line_def)
next
  case (Cons x pre)
  obtain r s1 where p: "pullLayers env img token (Digest x) s = (r, s1)"
    by (cases "pullLayers env img token (Digest x) s")
  from Cons.prems(1) p obtain name where r: "r = Ok name"
    and rest: "pull_loop env img token pre (acc @ [name]) s1 = (Inr names, s3)"
    by (cases r) (auto split: prod.splits)
  from Cons.IH [OF rest Cons.prems(2)] p r show ?case
    by simp
qed

lemma extractTar_StartFailed:
  assumes "snd (tar_xzf env (files s (hostPath s src))) = StartFailed m"
  shows "fst (extractTar env src dest s) = Fail (Err m)"
  using assms by (auto simp add: extractTar_def Let_def split: prod.splits)

lemma extract_loop_fails_at:
  assumes "extract_loop env pre dir s = (Inr u, s4)"
    and "extractTar env n dir s4 = (Fail (Err m), s5)"
  shows "extract_loop env (pre @ n # post) dir s
         = (Inl (OsExit 1), s5\<lparr>stdout := stdout s5 @ [error_line m]\<rparr>)"
  using assms
proof (induction pre arbitrary: s)
  case Nil
  then show ?case
    by (simp add: error_line_def)
next
  case (Cons x pre)
  obtain r s1 where p: "extractTar env x dir s = (r, s1)"
    by (cases "extractTar env x dir s")
  from Cons.prems(1) p obtain v where r: "r = Ok v"
    and rest: "extract_loop env pre dir s1 = (Inr u, s4)"
    by (cases r) (auto split: prod.splits)
  from Cons.IH [OF rest Cons.prems(2)] p r show ?case
    by simp
qed

lemma createFileSystem_Some:
  assumes "syscall_Chroot env dir = Some m"
  shows "createFileSystem env dir s = (Fail (Err m), log_event (Chroot dir) s)"
  using assms by (simp add: createFileSystem_def Let_def)

lemma assemble_download_Fail:
  assumes "parseImage imageName = (name, tag)"
    and "getToken env (''library/'' @ name) s0 = (Ok token, s1)"
    and "getManifest env name token tag s1 = (Ok (Some manifest), s2)"
    and "Layers manifest = pre @ l # post"
    and "pull_loop env name token pre [] s2 = (Inr names, s3)"
    and "pullLayers env name token (Digest l) s3 = (Fail (Err m), s4)"
  shows "assemble env imageName dir s0
         = (Inl (OsExit 1), s4\<lparr>stdout := stdout s4 @ [error_line m]\<rparr>)"
  using assms(1,2,3) pull_loop_fails_at [OF assms(5,6), of post]
  by (simp add: assemble_def assms(4))

lemma assemble_extract_Fail:
  assumes "parseImage imageName = (name, tag)"
    and "getToken env (''library/'' @ name) s0 = (Ok token, s1)"
    and "getManifest env name token tag s1 = (Ok (Some manifest), s2)"
    and "pull_loop env name token (Layers manifest) [] s2 = (Inr (pre @ n # post), s3)"
    and "extract_loop env pre dir s3 = (Inr u, s4)"
    and "extractTar env n dir s4 = (Fail (Err m), s5)"
  shows "assemble env imageName dir s0
         = (Inl (OsExit 1), s5\<lparr>stdout := stdout s5 @ [error_line m]\<rparr>)"
  using assms(1,2,3,4) extract_loop_fails_at [OF assms(5,6), of post]
  by (simp add: assemble_def)

lemma assemble_chroot_Fail:
  assumes "parseImage imageName = (name, tag)"
    and "getToken env (''library/'' @ name) s0 = (Ok token, s1)"
    and "getManifest env name token tag s1 = (Ok (Some manifest), s2)"
    and "pull_loop env name token (Layers manifest) [] s2 = (Inr names, s3)"
    and "extract_loop env names dir s3 = (Inr u, s4)"
    and "syscall_Chroot env dir = Some m"
  shows "assemble env imageName dir s0
         = (Inl (OsExit 1), (log_event (Chroot dir) s4)\<lparr>stdout := stdout s4 @ [error_line m]\<rparr>)"
  using assms(1,2,3,4,5) createFileSystem_Some [OF assms(6), of s4]
  by (simp add: assemble_def error_line_def)

lemma main_exits_reporting:
  assumes "4 \<le> length Args" and "MkdirTemp env s = (Ok dir, s0)"
    and "assemble env (Args ! 2) dir s0
         = (Inl (OsExit 1), s'\<lparr>stdout := stdout s' @ [error_line m]\<rparr>)"
    and "stdout s' = stdout s0 \<and> stderr s' = stderr s0"
  shows "exits_reporting (main env Args s) s m"
  using assms MkdirTemp_frame [OF assms(2)]
  by (simp add: main_assemble_exits exits_reporting_def)

lemma pullLayers_Fail_Err: "fst (pullLayers env img token digest s) = Fail e \<Longrightarrow> \<exists>m. e = Err m"
  using pullLayers_result [of env img token digest s] by (cases e) auto

lemma assemble_Inr:
  assumes "parseImage imageName = (name, tag)"
    and "getToken env (''library/'' @ name) s0 = (Ok token, s1)"
    and "getManifest env name token tag s1 = (Ok (Some manifest), s2)"
    and "pull_loop env name token (Layers manifest) [] s2 = (Inr names, s3)"
    and "extract_loop env names dir s3 = (Inr u, s4)"
    and "syscall_Chroot env dir = None"
  shows "assemble env imageName dir s0
         = (Inr (), (log_event (Chroot dir) s4)\<lparr>root := hostPath s4 dir\<rparr>)"
  using assms by (simp add: assemble_def createFileSystem_def Let_def)

text \<open>
  C2, as the program has it. The exit code is the launched command's exit status when the
  command starts and exits. It is 1, with the line \<open>Error\<close> and the cause added to the
  standard output and nothing to the standard error, when the temporary directory cannot
  be made, when the token request fails, when the manifest request fails, when the
  download of a layer fails after the downloads before it have succeeded, when tar cannot
  be started for an archive after the archives before it have been unpacked, when the
  change of root fails, and when the command cannot be started.
\<close>

theorem exit_code_of_run:
  assumes "4 \<le> length Args" and "parseImage (Args ! 2) = (name, tag)"
  shows "(os_MkdirTemp env = Inl m \<longrightarrow> exits_reporting (main env Args s) s m)
       \<and> (MkdirTemp env s = (Ok dir, s0)
            \<and> getToken env (''library/'' @ name) s0 = (Fail e, s1)
          \<longrightarrow> (\<exists>m. e = Err m \<and> exits_reporting (main env Args s) s m))
       \<and> (MkdirTemp env s = (Ok dir, s0)
            \<and> getToken env (''library/'' @ name) s0 = (Ok token, s1)
            \<and> getManifest env name token tag s1 = (Fail e, s2)
          \<longrightarrow> (\<exists>m. e = Err m \<and> exits_reporting (main env Args s) s m))
       \<and> (MkdirTemp env s = (Ok dir, s0)
            \<and> getToken env (''library/'' @ name) s0 = (Ok token, s1)
            \<and> getManifest env name token tag s1 = (Ok (Some manifest), s2)
            \<and> Layers manifest = pre @ l # post
            \<and> pull_loop env name token pre [] s2 = (Inr names, s3)
            \<and> pullLayers env name token (Digest l) s3 = (Fail e, s4)
          \<longrightarrow> (\<exists>m. e = Err m \<and> exits_reporting (main env Args s) s m))
       \<and> (MkdirTemp env s = (Ok dir, s0)
            \<and> getToken env (''library/'' @ name) s0 = (Ok token, s1)
            \<and> getManifest env name token tag s1 = (Ok (Some manifest), s2)
            \<and> pull_loop env name token (Layers manifest) [] s2 = (Inr (ns @ n # ms), s3)
            \<and> extract_loop env ns dir s3 = (Inr (), s4)
            \<and> snd (tar_xzf env (files s4 (hostPath s4 n))) = StartFailed m
          \<longrightarrow> exits_reporting (main env Args s) s m)
       \<and> (MkdirTemp env s = (Ok dir, s0)
            \<and> getToken env (''library/'' @ name) s0 = (Ok token, s1)
            \<and> getManifest env name token tag s1 = (Ok (Some manifest), s2)
            \<and> pull_loop env name token (Layers manifest) [] s2 = (Inr names, s3)
            \<and> extract_loop env names dir s3 = (Inr (), s4)
            \<and> syscall_Chroot env dir = Some m
          \<longrightarrow> exits_reporting (main env Args s) s m)
       \<and> (MkdirTemp env s = (Ok dir, s0)
            \<and> getToken env (''library/'' @ name) s0 = (Ok token, s1)
            \<and> getManifest env name token tag s1 = (Ok (Some manifest), s2)
            \<and> pull_loop env name token (Layers manifest) [] s2 = (Inr names, s3)
            \<and> extract_loop env names dir s3 = (Inr (), s4)
            \<and> syscall_Chroot env dir = None
          \<longrightarrow> (cmd_Run env (Args ! 3) (drop 4 Args) = ExitStatus k
                 \<longrightarrow> fst (main env Args s) = Exited (int k))
              \<and> (cmd_Run env (Args ! 3) (drop 4 Args) = StartFailed m
                 \<longrightarrow> exits_reporting (main env Args s) s m))"
proof (intro conjI impI)
  assume "os_MkdirTemp env = Inl m"
  with assms(1) show "exits_reporting (main env Args s) s m"
    by (simp add: main_MkdirTemp_fails exits_reporting_def)
next
  assume h: "MkdirTemp env s = (Ok dir, s0)
      \<and> getToken env (''library/'' @ name) s0 = (Fail e, s1)"
  then obtain m where e: "e = Err m"
    using stage_Fail_Err(1) [of env "''library/'' @ name" s0 e] by auto
  from h have fr: "stdout s1 = stdout s0 \<and> stderr s1 = stderr s0"
    using getToken_frame by blast
  from h e assms(2) have a: "assemble env (Args ! 2) dir s0
      = (Inl (OsExit 1), s1\<lparr>stdout := stdout s1 @ [error_line m]\<rparr>)"
    by (simp add: assemble_token_Fail error_line_def)
  from h have mk: "MkdirTemp env s = (Ok dir, s0)"
    by simp
  from main_exits_reporting [OF assms(1) mk a fr]
  have r: "exits_reporting (main env Args s) s m" .
  from e r show "\<exists>m. e = Err m \<and> exits_reporting (main env Args s) s m"
    by blast
next
  assume h: "MkdirTemp env s = (Ok dir, s0)
      \<and> getToken env (''library/'' @ name) s0 = (Ok token, s1)
      \<and> getManifest env name token tag s1 = (Fail e, s2)"
  then obtain m where e: "e = Err m"
    using stage_Fail_Err(2) [of env name token tag s1 e] by auto
  from h have fr: "stdout s2 = stdout s0 \<and> stderr s2 = stderr s0"
    using getToken_frame [of env "''library/'' @ name" s0 "Ok token" s1]
      getManifest_frame [of env name token tag s1 "Fail e" s2] by simp
  from h e assms(2) have a: "assemble env (Args ! 2) dir s0
      = (Inl (OsExit 1), s2\<lparr>stdout := stdout s2 @ [error_line m]\<rparr>)"
    by (simp add: assemble_manifest_Fail error_line_def)
  from h have mk: "MkdirTemp env s = (Ok dir, s0)"
    by simp
  from main_exits_reporting [OF assms(1) mk a fr]
  have r: "exits_reporting (main env Args s) s m" .
  from e r show "\<exists>m. e = Err m \<and> exits_reporting (main env Args s) s m"
    by blast
next
  assume h: "MkdirTemp env s = (Ok dir, s0)
      \<and> getToken env (''library/'' @ name) s0 = (Ok token, s1)
      \<and> getManifest env name token tag s1 = (Ok (Some manifest), s2)
      \<and> Layers manifest = pre @ l # post
      \<and> pull_loop env name token pre [] s2 = (Inr names, s3)
      \<and> pullLayers env name token (Digest l) s3 = (Fail e, s4)"
  then obtain m where e: "e = Err m"
    using pullLayers_Fail_Err [of env name token "Digest l" s3 e] by auto
  from h have fr: "stdout s4 = stdout s0 \<and> stderr s4 = stderr s0"
    using getToken_frame [of env "''library/'' @ name" s0 "Ok token" s1]
      getManifest_frame [of env name token tag s1 "Ok (Some manifest)" s2]
      pull_loop_frame [of env name token pre "[]" s2 names s3]
      pullLayers_frame [of env name token "Digest l" s3 "Fail e" s4] by simp
  from h e assms(2) have a: "assemble env (Args ! 2) dir s0
      = (Inl (OsExit 1), s4\<lparr>stdout := stdout s4 @ [error_line m]\<rparr>)"
    by (auto intro: assemble_download_Fail)
  from h have mk: "MkdirTemp env s = (Ok dir, s0)"
    by simp
  from main_exits_reporting [OF assms(1) mk a fr]
  have r: "exits_reporting (main env Args s) s m" .
  from e r show "\<exists>m. e = Err m \<and> exits_reporting (main env Args s) s m"
    by blast
next
  assume h: "MkdirTemp env s = (Ok dir, s0)
      \<and> getToken env (''library/'' @ name) s0 = (Ok token, s1)
      \<and> getManifest env name token tag s1 = (Ok (Some manifest), s2)
      \<and> pull_loop env name token (Layers manifest) [] s2 = (Inr (ns @ n # ms), s3)
      \<and> extract_loop env ns dir s3 = (Inr (), s4)
      \<and> snd (tar_xzf env (files s4 (hostPath s4 n))) = StartFailed m"
  obtain s5 where x: "extractTar env n dir s4 = (Fail (Err m), s5)"
    using h extractTar_StartFailed [of env s4 n m dir]
    by (cases "extractTar env n dir s4") simp
  from h x have fr: "stdout s5 = stdout s0 \<and> stderr s5 = stderr s0"
    using getToken_frame [of env "''library/'' @ name" s0 "Ok token" s1]
      getManifest_frame [of env name token tag s1 "Ok (Some manifest)" s2]
      pull_loop_frame [of env name token "Layers manifest" "[]" s2 "ns @ n # ms" s3]
      extract_loop_frame [of env ns dir s3 "()" s4]
      extractTar_frame [of env n dir s4 "Fail (Err m)" s5] by simp
  from h x assms(2) have a: "assemble env (Args ! 2) dir s0
      = (Inl (OsExit 1), s5\<lparr>stdout := stdout s5 @ [error_line m]\<rparr>)"
    by (auto intro: assemble_extract_Fail)
  from h have mk: "MkdirTemp env s = (Ok dir, s0)"
    by simp
  from main_exits_reporting [OF assms(1) mk a fr]
  show "exits_reporting (main env Args s) s m" .
next
  assume h: "MkdirTemp env s = (Ok dir, s0)
      \<and> getToken env (''library/'' @ name) s0 = (Ok token, s1)
      \<and> getManifest env name token tag s1 = (Ok (Some manifest), s2)
      \<and> pull_loop env name token (Layers manifest) [] s2 = (Inr names, s3)
      \<and> extract_loop env names dir s3 = (Inr (), s4)
      \<and> syscall_Chroot env dir = Some m"
  let ?s5 = "log_event (Chroot dir) s4"
  from h have fr: "stdout ?s5 = stdout s0 \<and> stderr ?s5 = stderr s0"
    using getToken_frame [of env "''library/'' @ name" s0 "Ok token" s1]
      getManifest_frame [of env name token tag s1 "Ok (Some manifest)" s2]
      pull_loop_frame [of env name token "Layers manifest" "[]" s2 names s3]
      extract_loop_frame [of env names dir s3 "()" s4] by simp
  from h assms(2) have "assemble env (Args ! 2) dir s0
      = (Inl (OsExit 1), ?s5\<lparr>stdout := stdout s4 @ [error_line m]\<rparr>)"
    by (auto intro: assemble_chroot_Fail)
  then have a: "assemble env (Args ! 2) dir s0
      = (Inl (OsExit 1), ?s5\<lparr>stdout := stdout ?s5 @ [error_line m]\<rparr>)"
    by simp
  from h have mk: "MkdirTemp env s = (Ok dir, s0)"
    by simp
  from main_exits_reporting [OF assms(1) mk a fr]
  show "exits_reporting (main env Args s) s m" .
next
  assume h: "MkdirTemp env s = (Ok dir, s0)
      \<and> getToken env (''library/'' @ name) s0 = (Ok token, s1)
      \<and> getManifest env name token tag s1 = (Ok (Some manifest), s2)
      \<and> pull_loop env name token (Layers manifest) [] s2 = (Inr names, s3)
      \<and> extract_loop env names dir s3 = (Inr (), s4)
      \<and> syscall_Chroot env dir = None"
  let ?s5 = "(log_event (Chroot dir) s4)\<lparr>root := hostPath s4 dir\<rparr>"
  from h assms(2) have asm: "assemble env (Args ! 2) dir s0 = (Inr (), ?s5)"
    by (auto intro: assemble_Inr)
  from h have mk: "MkdirTemp env s = (Ok dir, s0)"
    by simp
  note run = main_launches [OF assms(1) mk asm]
  from h have fr: "stdout ?s5 = stdout s \<and> stderr ?s5 = stderr s"
    using MkdirTemp_frame [OF mk]
      getToken_frame [of env "''library/'' @ name" s0 "Ok token" s1]
      getManifest_frame [of env name token tag s1 "Ok (Some manifest)" s2]
      pull_loop_frame [of env name token "Layers manifest" "[]" s2 names s3]
      extract_loop_frame [of env names dir s3 "()" s4] by simp
  show "fst (main env Args s) = Exited (int k)"
    if "cmd_Run env (Args ! 3) (drop 4 Args) = ExitStatus k"
    unfolding run by (simp add: launch_ExitStatus [OF that])
  show "exits_reporting (main env Args s) s m"
    if "cmd_Run env (Args ! 3) (drop 4 Args) = StartFailed m"
    unfolding run using fr
    by (simp add: launch_StartFailed [OF that] exits_reporting_def error_line_def)
qed


lemma pair_with_snd: "fst p = a \<Longrightarrow> p = (a, snd p)"
  by (cases p) simp

lemma demo_manifest_layers:
  "Layers (manifest_of [layer_of ''sha256:aa'', layer_of ''sha256:bb''])
   = [layer_of ''sha256:aa''] @ layer_of ''sha256:bb'' # []"
  by (simp add: manifest_of_def)

theorem exit_code_of_run_witness:
  "exits_reporting (main no_tmp_env demo_args world0) world0 ''no space left on device''
   \<and> exits_reporting (main denied_env demo_args world0) world0 ''Error getting token''
   \<and> exits_reporting (main demo_env tag9_args world0) world0
        (''Error getting manifest. Status: '' @ ''404 Not Found'' @ ''. Response: '' @ ''{}'')
   \<and> exits_reporting (main missing_layer_env demo_args world0) world0 ''Error getting layer''
   \<and> exits_reporting (main no_tar_env demo_args world0) world0 ''exec: tar: not found''
   \<and> exits_reporting (main no_chroot_env demo_args world0) world0 ''operation not permitted''
   \<and> fst (main demo_env false_args world0) = Exited 3
   \<and> exits_reporting (main no_binary_env demo_args world0) world0 ''exec: not found''"
proof -
  have len: "4 \<le> length demo_args" "4 \<le> length tag9_args" "4 \<le> length false_args"
    by (simp_all add: demo_args_def tag9_args_def false_args_def)
  have pi: "parseImage (demo_args ! 2) = (''alpine'', ''latest'')"
    "parseImage (tag9_args ! 2) = (''alpine'', ''9'')"
    "parseImage (false_args ! 2) = (''alpine'', ''latest'')"
    by (simp_all add: demo_args_def tag9_args_def false_args_def parseImage_def)
  note at_demo = exit_code_of_run [OF len(1) pi(1)]
  note at_tag9 = exit_code_of_run [OF len(2) pi(2)]
  note at_false = exit_code_of_run [OF len(3) pi(3)]
  let ?M = "manifest_of [layer_of ''sha256:aa'', layer_of ''sha256:bb'']"

  have "os_MkdirTemp no_tmp_env = Inl ''no space left on device''"
    by (simp add: no_tmp_env_def)
  from at_demo [THEN conjunct1, THEN mp, OF this]
  have c1: "exits_reporting (main no_tmp_env demo_args world0) world0 ''no space left on device''" .

  define a0 where "a0 = snd (MkdirTemp denied_env world0)"
  have "MkdirTemp denied_env world0 = (Ok ''/tmp/my-docker1'', a0)
      \<and> getToken denied_env (''library/'' @ ''alpine'') a0
          = (Fail (Err ''Error getting token''),
             snd (getToken denied_env (''library/'' @ ''alpine'') a0))"
    unfolding a0_def
    by (intro conjI pair_with_snd) (simp_all add: model_defs demo_defs)
  from at_demo [THEN conjunct2, THEN conjunct1, THEN mp, OF this]
  have c2: "exits_reporting (main denied_env demo_args world0) world0 ''Error getting token''"
    by simp

  define b0 where "b0 = snd (MkdirTemp demo_env world0)"
  define b1 where "b1 = snd (getToken demo_env (''library/'' @ ''alpine'') b0)"
  have "MkdirTemp demo_env world0 = (Ok ''/tmp/my-docker1'', b0)
      \<and> getToken demo_env (''library/'' @ ''alpine'') b0 = (Ok ''t0'', b1)
      \<and> getManifest demo_env ''alpine'' ''t0'' ''9'' b1
          = (Fail (Err (''Error getting manifest. Status: '' @ ''404 Not Found''
                        @ ''. Response: '' @ ''{}'')),
             snd (getManifest demo_env ''alpine'' ''t0'' ''9'' b1))"
    unfolding b0_def b1_def
    by (intro conjI pair_with_snd) (simp_all add: model_defs demo_defs)
  from at_tag9 [THEN conjunct2, THEN conjunct2, THEN conjunct1, THEN mp, OF this]
  have c3: "exits_reporting (main demo_env tag9_args world0) world0
        (''Error getting manifest. Status: '' @ ''404 Not Found'' @ ''. Response: '' @ ''{}'')"
    by simp

  define d0 where "d0 = snd (MkdirTemp missing_layer_env world0)"
  define d1 where "d1 = snd (getToken missing_layer_env (''library/'' @ ''alpine'') d0)"
  define d2 where "d2 = snd (getManifest missing_layer_env ''alpine'' ''t0'' ''latest'' d1)"
  define d3 where
    "d3 = snd (pull_loop missing_layer_env ''alpine'' ''t0'' [layer_of ''sha256:aa''] [] d2)"
  have "MkdirTemp missing_layer_env world0 = (Ok ''/tmp/my-docker1'', d0)
      \<and> getToken missing_layer_env (''library/'' @ ''alpine'') d0 = (Ok ''t0'', d1)
      \<and> getManifest missing_layer_env ''alpine'' ''t0'' ''latest'' d1 = (Ok (Some ?M), d2)
      \<and> Layers ?M = [layer_of ''sha256:aa''] @ layer_of ''sha256:bb'' # []
      \<and> pull_loop missing_layer_env ''alpine'' ''t0'' [layer_of ''sha256:aa''] [] d2
          = (Inr [''aa.tar.gz''], d3)
      \<and> pullLayers missing_layer_env ''alpine'' ''t0'' (Digest (layer_of ''sha256:bb'')) d3
          = (Fail (Err ''Error getting layer''),
             snd (pullLayers missing_layer_env ''alpine'' ''t0''
                    (Digest (layer_of ''sha256:bb'')) d3))"
    unfolding d0_def d1_def d2_def d3_def
    by (intro conjI pair_with_snd demo_manifest_layers)
      (simp_all add: model_defs demo_defs failing_defs)
  from at_demo [THEN conjunct2, THEN conjunct2, THEN conjunct2, THEN conjunct1, THEN mp, OF this]
  have c4: "exits_reporting (main missing_layer_env demo_args world0) world0
      ''Error getting layer''"
    by simp

  define t0 where "t0 = snd (MkdirTemp no_tar_env world0)"
  define t1 where "t1 = snd (getToken no_tar_env (''library/'' @ ''alpine'') t0)"
  define t2 where "t2 = snd (getManifest no_tar_env ''alpine'' ''t0'' ''latest'' t1)"
  define t3 where "t3 = snd (pull_loop no_tar_env ''alpine'' ''t0'' (Layers ?M) [] t2)"
  have "MkdirTemp no_tar_env world0 = (Ok ''/tmp/my-docker1'', t0)
      \<and> getToken no_tar_env (''library/'' @ ''alpine'') t0 = (Ok ''t0'', t1)
      \<and> getManifest no_tar_env ''alpine'' ''t0'' ''latest'' t1 = (Ok (Some ?M), t2)
      \<and> pull_loop no_tar_env ''alpine'' ''t0'' (Layers ?M) [] t2
          = (Inr ([] @ ''aa.tar.gz'' # [''bb.tar.gz'']), t3)
      \<and> extract_loop no_tar_env [] ''/tmp/my-docker1'' t3 = (Inr (), t3)
      \<and> snd (tar_xzf no_tar_env (files t3 (hostPath t3 ''aa.tar.gz'')))
          = StartFailed ''exec: tar: not found''"
    unfolding t0_def t1_def t2_def t3_def
    by (intro conjI pair_with_snd) (simp_all add: model_defs demo_defs failing_defs)
  from at_demo [THEN conjunct2, THEN conjunct2, THEN conjunct2, THEN conjunct2, THEN conjunct1,
      THEN mp, OF this]
  have c5: "exits_reporting (main no_tar_env demo_args world0) world0 ''exec: tar: not found''" .

  define r0 where "r0 = snd (MkdirTemp no_chroot_env world0)"
  define r1 where "r1 = snd (getToken no_chroot_env (''library/'' @ ''alpine'') r0)"
  define r2 where "r2 = snd (getManifest no_chroot_env ''alpine'' ''t0'' ''latest'' r1)"
  define r3 where "r3 = snd (pull_loop no_chroot_env ''alpine'' ''t0'' (Layers ?M) [] r2)"
  define r4 where
    "r4 = snd (extract_loop no_chroot_env [''aa.tar.gz'', ''bb.tar.gz''] ''/tmp/my-docker1'' r3)"
  have "MkdirTemp no_chroot_env world0 = (Ok ''/tmp/my-docker1'', r0)
      \<and> getToken no_chroot_env (''library/'' @ ''alpine'') r0 = (Ok ''t0'', r1)
      \<and> getManifest no_chroot_env ''alpine'' ''t0'' ''latest'' r1 = (Ok (Some ?M), r2)
      \<and> pull_loop no_chroot_env ''alpine'' ''t0'' (Layers ?M) [] r2
          = (Inr [''aa.tar.gz'', ''bb.tar.gz''], r3)
      \<and> extract_loop no_chroot_env [''aa.tar.gz'', ''bb.tar.gz''] ''/tmp/my-docker1'' r3
          = (Inr (), r4)
      \<and> syscall_Chroot no_chroot_env ''/tmp/my-docker1'' = Some ''operation not permitted''"
    unfolding r0_def r1_def r2_def r3_def r4_def
    by (intro conjI pair_with_snd) (simp_all add: model_defs demo_defs failing_defs)
  from at_demo [THEN conjunct2, THEN conjunct2, THEN conjunct2, THEN conjunct2, THEN conjunct2,
      THEN conjunct1, THEN mp, OF this]
  have c6: "exits_reporting (main no_chroot_env demo_args world0) world0
      ''operation not permitted''" .

  define e2 where "e2 = snd (getManifest demo_env ''alpine'' ''t0'' ''latest'' b1)"
  define e3 where "e3 = snd (pull_loop demo_env ''alpine'' ''t0'' (Layers ?M) [] e2)"
  define e4 where
    "e4 = snd (extract_loop demo_env [''aa.tar.gz'', ''bb.tar.gz''] ''/tmp/my-docker1'' e3)"
  have "MkdirTemp demo_env world0 = (Ok ''/tmp/my-docker1'', b0)
      \<and> getToken demo_env (''library/'' @ ''alpine'') b0 = (Ok ''t0'', b1)
      \<and> getManifest demo_env ''alpine'' ''t0'' ''latest'' b1 = (Ok (Some ?M), e2)
      \<and> pull_loop demo_env ''alpine'' ''t0'' (Layers ?M) [] e2
          = (Inr [''aa.tar.gz'', ''bb.tar.gz''], e3)
      \<and> extract_loop demo_env [''aa.tar.gz'', ''bb.tar.gz''] ''/tmp/my-docker1'' e3
          = (Inr (), e4)
      \<and> syscall_Chroot demo_env ''/tmp/my-docker1'' = None"
    unfolding b0_def b1_def e2_def e3_def e4_def
    by (intro conjI pair_with_snd) (simp_all add: model_defs demo_defs)
  from at_false [THEN conjunct2, THEN conjunct2, THEN conjunct2, THEN conjunct2, THEN conjunct2,
      THEN conjunct2, THEN mp, OF this, THEN conjunct1, THEN mp]
  have c7: "fst (main demo_env false_args world0) = Exited 3"
    by (simp add: false_args_def demo_env_def)

  define n0 where "n0 = snd (MkdirTemp no_binary_env world0)"
  define n1 where "n1 = snd (getToken no_binary_env (''library/'' @ ''alpine'') n0)"
  define n2 where "n2 = snd (getManifest no_binary_env ''alpine'' ''t0'' ''latest'' n1)"
  define n3 where "n3 = snd (pull_loop no_binary_env ''alpine'' ''t0'' (Layers ?M) [] n2)"
  define n4 where
    "n4 = snd (extract_loop no_binary_env [''aa.tar.gz'', ''bb.tar.gz''] ''/tmp/my-docker1'' n3)"
  have "MkdirTemp no_binary_env world0 = (Ok ''/tmp/my-docker1'', n0)
      \<and> getToken no_binary_env (''library/'' @ ''alpine'') n0 = (Ok ''t0'', n1)
      \<and> getManifest no_binary_env ''alpine'' ''t0'' ''latest'' n1 = (Ok (Some ?M), n2)
      \<and> pull_loop no_binary_env ''alpine'' ''t0'' (Layers ?M) [] n2
          = (Inr [''aa.tar.gz'', ''bb.tar.gz''], n3)
      \<and> extract_loop no_binary_env [''aa.tar.gz'', ''bb.tar.gz''] ''/tmp/my-docker1'' n3
          = (Inr (), n4)
      \<and> syscall_Chroot no_binary_env ''/tmp/my-docker1'' = None"
    unfolding n0_def n1_def n2_def n3_def n4_def
    by (intro conjI pair_with_snd) (simp_all add: model_defs demo_defs)
  from at_demo [THEN conjunct2, THEN conjunct2, THEN conjunct2, THEN conjunct2, THEN conjunct2,
      THEN conjunct2, THEN mp, OF this, THEN conjunct2, THEN mp]
  have c8: "exits_reporting (main no_binary_env demo_args world0) world0 ''exec: not found''"
    by (simp add: no_binary_env_def)

  from c1 c2 c3 c4 c5 c6 c7 c8 show ?thesis
    by (intro conjI)
qed


text \<open>
  C2 as stated fails: when the token endpoint answers 401 the run exits with code 1 and its
  message is on the standard output; nothing is written to the standard error.
\<close>

theorem exit_message_stream_counterexample:
  "fst (main denied_env demo_args world0) = Exited 1
   \<and> stderr (snd (main denied_env demo_args world0)) = []
   \<and> stdout (snd (main denied_env demo_args world0)) = [''Error Error getting token'' @ [CHR 0x0A]]"
  by (simp add: model_defs demo_defs)

text \<open>
  A run in which tar exits with status 2: \<^verbatim>\<open>handleError\<close> finds an \<^verbatim>\<open>*exec.ExitError\<close> and
  passes its code to \<^verbatim>\<open>os.Exit\<close>.
\<close>

lemma main_tar_exit_status:
  "fst (main corrupt_env demo_args world0) = Exited 2
   \<and> stdout (snd (main corrupt_env demo_args world0)) = []
   \<and> stderr (snd (main corrupt_env demo_args world0)) = []"
  by (simp add: model_defs demo_defs corrupt_env_def)

subsection \<open>An image without layers\<close>

lemma launch_world:
  "trace (snd (launch env command args s)) = trace s @ [RunCommand command args]"
  "files (snd (launch env command args s)) = files s"
  "dirs (snd (launch env command args s)) = dirs s"
  "root (snd (launch env command args s)) = root s"
  by (simp_all add: launch_def Let_def split: option.splits)

lemma exit_main_trace: "trace (snd (exit_main (RemoveAll dir) r)) = trace (snd r)"
proof (cases r)
  case (Pair fl s)
  then show ?thesis by (cases fl) simp_all
qed

lemma RemoveAll_files_None: "files s q = None \<Longrightarrow> files (RemoveAll p s) q = None"
  by (simp add: RemoveAll_def)

lemma exit_main_files_None:
  "files (snd r) q = None \<Longrightarrow> files (snd (exit_main (RemoveAll dir) r)) q = None"
proof (cases r)
  case (Pair fl s)
  assume "files (snd r) q = None"
  with Pair show ?thesis by (cases fl) (simp_all add: RemoveAll_files_None)
qed

lemma MkdirTemp_Ok:
  assumes "MkdirTemp env s = (Ok dir, s0)"
  shows "s0 = s\<lparr>dirs := insert (hostPath s dir) (dirs s),
                 files := (\<lambda>q. if below (hostPath s dir) q then None else files s q)\<rparr>"
  using assms by (auto simp add: MkdirTemp_def split: sum.splits)

lemma assemble_no_layers:
  assumes "parseImage imageName = (name, tag)"
    and "getToken env (''library/'' @ name) s0 = (Ok token, s1)"
    and "getManifest env name token tag s1 = (Ok (Some manifest), s2)"
    and "Layers manifest = []"
  shows "assemble env imageName dir s0
         = (case syscall_Chroot env dir of
              Some m \<Rightarrow> (Inl (OsExit 1), (log_event (Chroot dir) s2)\<lparr>stdout := stdout s2 @ [error_line m]\<rparr>)
            | None \<Rightarrow> (Inr (), (log_event (Chroot dir) s2)\<lparr>root := hostPath s2 dir\<rparr>))"
  using assms
  by (simp add: assemble_def createFileSystem_def Let_def error_line_def split: option.splits)

text \<open>
  C8. When the manifest has no layers, the directory the run changes root into exists and
  holds no file: none at the time of the change of root and none at the end of the run.
  After the manifest request the run calls the change of root and, when that succeeds,
  launches the command; it makes no other external call.
\<close>

theorem no_layers_empty_root:
  assumes "4 \<le> length Args" and "MkdirTemp env s = (Ok dir, s0)"
    and "parseImage (Args ! 2) = (name, tag)"
    and "getToken env (''library/'' @ name) s0 = (Ok token, s1)"
    and "getManifest env name token tag s1 = (Ok (Some manifest), s2)"
    and "Layers manifest = []"
  shows "hostPath s dir \<in> dirs s2
       \<and> (\<forall>q. below (hostPath s dir) q \<longrightarrow> files s2 q = None)
       \<and> (\<forall>q. below (hostPath s dir) q \<longrightarrow> files (snd (main env Args s)) q = None)
       \<and> trace (snd (main env Args s))
           = trace s2 @ [Chroot dir]
             @ (if syscall_Chroot env dir = None then [RunCommand (Args ! 3) (drop 4 Args)]
                else [])"
proof -
  note s0 = MkdirTemp_Ok [OF assms(2)]
  note f1 = getToken_frame [OF assms(4)]
  note f2 = getManifest_frame [OF assms(5)]
  note asm = assemble_no_layers [OF assms(3,4,5,6), of dir]
  have main: "main env Args s = exit_main (RemoveAll dir) (main_body env (Args ! 2) (Args ! 3) (drop 4 Args) dir s0)"
    using assms(1,2) by (simp add: main_def)
  have d: "hostPath s dir \<in> dirs s2"
    using f1 f2 by (simp add: s0)
  have e: "files s2 q = None" if "below (hostPath s dir) q" for q
    using f1 f2 that by (simp add: s0)
  have body_files: "files (snd (main_body env (Args ! 2) (Args ! 3) (drop 4 Args) dir s0)) = files s2"
    by (simp add: main_body_def asm launch_world split: option.splits)
  have body_trace: "trace (snd (main_body env (Args ! 2) (Args ! 3) (drop 4 Args) dir s0))
      = trace s2 @ [Chroot dir]
        @ (if syscall_Chroot env dir = None then [RunCommand (Args ! 3) (drop 4 Args)] else [])"
    by (simp add: main_body_def asm launch_world split: option.splits)
  have "files (snd (main env Args s)) q = None" if "below (hostPath s dir) q" for q
    unfolding main using e [OF that] by (intro exit_main_files_None) (simp add: body_files)
  moreover have "trace (snd (main env Args s))
           = trace s2 @ [Chroot dir]
             @ (if syscall_Chroot env dir = None then [RunCommand (Args ! 3) (drop 4 Args)]
                else [])"
    unfolding main exit_main_trace by (rule body_trace)
  ultimately show ?thesis
    using d e by blast
qed

theorem no_layers_empty_root_witness:
  "below (hostPath world0 ''/tmp/my-docker1'') ''/tmp/my-docker1/bin/sh''
   \<and> files (snd (main lenient_env demo_args world0)) ''/tmp/my-docker1/bin/sh'' = None
   \<and> trace (snd (main lenient_env demo_args world0))
       = [HttpGet (getTokenURL ''library/alpine''), HttpGet (getManifestURL ''alpine'' ''latest''),
          Chroot ''/tmp/my-docker1'', RunCommand ''/bin/echo'' [''hello'']]"
proof -
  define s0 where "s0 = snd (MkdirTemp lenient_env world0)"
  define s1 where "s1 = snd (getToken lenient_env (''library/'' @ ''alpine'') s0)"
  define s2 where "s2 = snd (getManifest lenient_env ''alpine'' [] ''latest'' s1)"
  have len: "4 \<le> length demo_args"
    by (simp add: demo_args_def)
  have mk: "MkdirTemp lenient_env world0 = (Ok ''/tmp/my-docker1'', s0)"
    by (simp add: s0_def MkdirTemp_def lenient_env_def demo_env_def)
  have pi: "parseImage (demo_args ! 2) = (''alpine'', ''latest'')"
    by (simp add: demo_args_def parseImage_def)
  have tok: "getToken lenient_env (''library/'' @ ''alpine'') s0 = (Ok [], s1)"
    by (simp add: s1_def getToken_def Let_def demo_defs)
  have man: "getManifest lenient_env ''alpine'' [] ''latest'' s1 = (Ok (Some zero_manifest), s2)"
    by (simp add: s2_def getManifest_def Let_def demo_defs)
  have nol: "Layers zero_manifest = []"
    by (simp add: zero_manifest_def)
  have inside: "below (hostPath world0 ''/tmp/my-docker1'') ''/tmp/my-docker1/bin/sh''"
    by (simp add: below_def hostPath_def world0_def)
  have tr: "trace s2
      = [HttpGet (getTokenURL ''library/alpine''), HttpGet (getManifestURL ''alpine'' ''latest'')]"
    by (simp add: s2_def s1_def s0_def getManifest_def getToken_def MkdirTemp_def Let_def
        world0_def demo_defs)
  have ch: "syscall_Chroot lenient_env ''/tmp/my-docker1'' = None"
    by (simp add: lenient_env_def demo_env_def)
  have cmd: "demo_args ! 3 = ''/bin/echo''" "drop 4 demo_args = [''hello'']"
    by (simp_all add: demo_args_def)
  note t = no_layers_empty_root [OF len mk pi tok man nol]
  from t inside have "files (snd (main lenient_env demo_args world0)) ''/tmp/my-docker1/bin/sh'' = None"
    by blast
  moreover from t have "trace (snd (main lenient_env demo_args world0))
       = [HttpGet (getTokenURL ''library/alpine''), HttpGet (getManifestURL ''alpine'' ''latest''),
          Chroot ''/tmp/my-docker1'', RunCommand ''/bin/echo'' [''hello'']]"
    by (simp add: tr ch cmd)
  ultimately show ?thesis
    using inside by simp
qed

subsection \<open>Applying the layers in order\<close>






lemma write_entries_Nil [simp]: "write_entries dest [] f = f"
  by (simp add: write_entries_def)












subsection \<open>What a run leaves behind\<close>


















text \<open>
  The temporary directory after the same two runs. \<^verbatim>\<open>os.Exit\<close> runs no deferred call; and
  when \<^verbatim>\<open>main\<close> returns, the process is confined to the directory, where the deferred
  \<^verbatim>\<open>os.RemoveAll\<close> resolves the directory's path anew.
\<close>

lemma main_leaves_directory:
  "''/tmp/my-docker1'' \<in> dirs (snd (main missing_layer_env demo_args world0))
   \<and> ''/tmp/my-docker1'' \<in> dirs (snd (main demo_env foo_args world0))
   \<and> root (snd (main demo_env foo_args world0)) = ''/tmp/my-docker1''"
  by (simp add: model_defs demo_defs failing_defs foo_args_def)

end
